theory Spec2Isabelle
  imports Main "HOL-Library.Multiset"
begin

section \<open>Resolution records and the result-sorting routine (findDdoHandler.ts)\<close>

text \<open>
  Modelled from the spec: the type declaration of \<^verbatim>\<open>FindDDOResponse\<close> is imported
  from the repository's type directory and is not among the source files. The spec's data
  model (ResolutionRecord) gives its four fields and types \<^verbatim>\<open>lastUpdateTime\<close> as a
  timestamp: here a number of milliseconds since the epoch, an integer.
\<close>

record FindDDOResponse =
  id' :: string  \<comment> \<open>the field \<^verbatim>\<open>id\<close>\<close>
  lastUpdateTx :: string
  lastUpdateTime :: int
  provider :: string

text \<open>
  The source never compares the field itself: it compares \<^verbatim>\<open>new Date(x.lastUpdateTime)\<close>
  objects. \<^verbatim>\<open>new Date(value)\<close> clips the number: beyond 8.64e15 ms on either side of
  the epoch the time value of the object is \<^verbatim>\<open>NaN\<close>, an Invalid Date (\<open>None\<close> here).
  \<^verbatim>\<open>a > b\<close> and \<^verbatim>\<open>a < b\<close> on two \<^verbatim>\<open>Date\<close> objects compare their time values, and
  every comparison with \<^verbatim>\<open>NaN\<close> is false.
\<close>

definition new_Date :: "int \<Rightarrow> int option" where
  "new_Date value = (if \<bar>value\<bar> > 8640000000000000 then None else Some value)"

definition Date_gt :: "int option \<Rightarrow> int option \<Rightarrow> bool" where
  "Date_gt a b = (case a of None \<Rightarrow> False | Some x \<Rightarrow> (case b of None \<Rightarrow> False | Some y \<Rightarrow> x > y))"

definition Date_lt :: "int option \<Rightarrow> int option \<Rightarrow> bool" where
  "Date_lt a b = (case a of None \<Rightarrow> False | Some x \<Rightarrow> (case b of None \<Rightarrow> False | Some y \<Rightarrow> x < y))"

text \<open>A time stamp that \<^verbatim>\<open>new Date\<close> reads as a valid date.\<close>

definition validDate :: "int \<Rightarrow> bool" where
  "validDate value = (new_Date value \<noteq> None)"

text \<open>
  The comparator handed to \<^verbatim>\<open>Array.prototype.sort\<close> (findDdoHandler.ts, lines 34--43):
  \<^verbatim>\<open>
    const dateA = new Date(a.lastUpdateTime)
    const dateB = new Date(b.lastUpdateTime)
    if (dateB > dateA) return 1
    else if (dateB < dateA) return -1
    return 0
  \<close>
\<close>

definition compareFn :: "FindDDOResponse \<Rightarrow> FindDDOResponse \<Rightarrow> int" where
  "compareFn a b =
     (let dateA = new_Date (lastUpdateTime a); dateB = new_Date (lastUpdateTime b)
      in if Date_gt dateB dateA then 1 else if Date_lt dateB dateA then - 1 else 0)"

text \<open>
  \<^verbatim>\<open>Array.prototype.sort(comparefn)\<close>, as ECMAScript (since ES2019) specifies it. The
  comparator is consistent for the elements of the array when it is reflexive and
  symmetric in its answer \<open>0\<close> and transitive in each of its three answers; it then
  divides the elements into totally ordered classes.
\<close>

definition consistentComparator :: "('a \<Rightarrow> 'a \<Rightarrow> int) \<Rightarrow> 'a list \<Rightarrow> bool" where
  "consistentComparator cmp xs =
     list_all (\<lambda>a. cmp a a = 0 \<and>
       list_all (\<lambda>b. (cmp a b = 0 \<longrightarrow> cmp b a = 0) \<and>
         list_all (\<lambda>c. (cmp a b = 0 \<and> cmp b c = 0 \<longrightarrow> cmp a c = 0)
                      \<and> (cmp a b < 0 \<and> cmp b c < 0 \<longrightarrow> cmp a c < 0)
                      \<and> (cmp a b > 0 \<and> cmp b c > 0 \<longrightarrow> cmp a c > 0)) xs) xs) xs"

text \<open>
  For a consistent comparator the sort must be stable: \<open>a\<close> comes before \<open>b\<close> when
  \<open>comparefn(a, b) < 0\<close>, and elements that compare as \<open>0\<close> keep their input order.
  That result is unique, so it is computed here by a stable insertion sort: every
  element is inserted in front of the elements that followed it in the input, before
  the first one it does not have to come after.
\<close>

fun Array_insert :: "('a \<Rightarrow> 'a \<Rightarrow> int) \<Rightarrow> 'a \<Rightarrow> 'a list \<Rightarrow> 'a list" where
  "Array_insert cmp x [] = [x]"
| "Array_insert cmp x (y # ys) =
     (if cmp x y \<le> 0 then x # y # ys else y # Array_insert cmp x ys)"

fun Array_stableSort :: "('a \<Rightarrow> 'a \<Rightarrow> int) \<Rightarrow> 'a list \<Rightarrow> 'a list" where
  "Array_stableSort cmp [] = []"
| "Array_stableSort cmp (x # xs) = Array_insert cmp x (Array_stableSort cmp xs)"

text \<open>
  For a comparator that is not consistent, ECMAScript leaves the order to the engine.
  The engine's choice is the parameter \<open>engine\<close>.
\<close>

definition Array_sort ::
  "(('a \<Rightarrow> 'a \<Rightarrow> int) \<Rightarrow> 'a list \<Rightarrow> 'a list) \<Rightarrow> ('a \<Rightarrow> 'a \<Rightarrow> int) \<Rightarrow> 'a list \<Rightarrow> 'a list" where
  "Array_sort engine cmp xs =
     (if consistentComparator cmp xs then Array_stableSort cmp xs else engine cmp xs)"

text \<open>
  One engine: V8, which runs Node.js. On an array of fewer than 64 elements its TimSort
  finds the run the array starts with (reversing it when it descends strictly) and
  puts every later element into the sorted part by binary insertion. Longer arrays,
  where V8 merges several runs, are not modelled; the function is used on short
  arrays only.
\<close>

function V8_binarySearch :: "('a \<Rightarrow> 'a \<Rightarrow> int) \<Rightarrow> 'a \<Rightarrow> 'a list \<Rightarrow> nat \<Rightarrow> nat \<Rightarrow> nat" where
  "V8_binarySearch cmp pivot work left right =
     (if left < right
      then (let mid = left + (right - left) div 2;
                order = cmp pivot (work ! mid)
            in if order < 0 then V8_binarySearch cmp pivot work left mid
               else V8_binarySearch cmp pivot work (mid + 1) right)
      else left)"
  by pat_completeness auto
termination
  by (relation "measure (\<lambda>(cmp, pivot, work, left, right). right - left)") auto

declare V8_binarySearch.simps [simp del]

fun V8_binaryInsertionSort :: "('a \<Rightarrow> 'a \<Rightarrow> int) \<Rightarrow> 'a list \<Rightarrow> 'a list \<Rightarrow> 'a list" where
  "V8_binaryInsertionSort cmp sortedPart [] = sortedPart"
| "V8_binaryInsertionSort cmp sortedPart (pivot # rest) =
     (let left = V8_binarySearch cmp pivot sortedPart 0 (length sortedPart)
      in V8_binaryInsertionSort cmp (take left sortedPart @ pivot # drop left sortedPart) rest)"

fun V8_extendRun :: "('a \<Rightarrow> 'a \<Rightarrow> int) \<Rightarrow> bool \<Rightarrow> 'a \<Rightarrow> 'a list \<Rightarrow> nat" where
  "V8_extendRun cmp isDescending previous [] = 0"
| "V8_extendRun cmp isDescending previous (current # rest) =
     (let order = cmp current previous
      in if (if isDescending then order \<ge> 0 else order < 0) then 0
         else Suc (V8_extendRun cmp isDescending current rest))"

fun V8_countAndMakeRun :: "('a \<Rightarrow> 'a \<Rightarrow> int) \<Rightarrow> 'a list \<Rightarrow> 'a list \<times> 'a list" where
  "V8_countAndMakeRun cmp (elementHigh # elementLow # rest) =
     (let order = cmp elementLow elementHigh;
          isDescending = order < 0;
          runLength = 2 + V8_extendRun cmp isDescending elementLow rest;
          run = take runLength (elementHigh # elementLow # rest)
      in (if isDescending then rev run else run,
          drop runLength (elementHigh # elementLow # rest)))"
| "V8_countAndMakeRun cmp work = (work, [])"

definition V8_sort :: "('a \<Rightarrow> 'a \<Rightarrow> int) \<Rightarrow> 'a list \<Rightarrow> 'a list" where
  "V8_sort cmp work =
     (if length work < 2 then work
      else (case V8_countAndMakeRun cmp work of
              (run, rest) \<Rightarrow> V8_binaryInsertionSort cmp run rest))"

text \<open>
  JavaScript arrays are objects passed by reference and \<^verbatim>\<open>sort\<close> works in place,
  returning the array it was called on. The store maps every array reference to the
  array's current contents; \<open>sortFindDDOResults\<close> takes the store and the reference
  it is handed and gives back the store after the call and the reference it returns.
\<close>

type_synonym ref = nat
type_synonym store = "ref \<Rightarrow> FindDDOResponse list"

definition sortFindDDOResults ::
  "((FindDDOResponse \<Rightarrow> FindDDOResponse \<Rightarrow> int) \<Rightarrow> FindDDOResponse list \<Rightarrow> FindDDOResponse list)
   \<Rightarrow> store \<Rightarrow> ref \<Rightarrow> store \<times> ref" where
  "sortFindDDOResults engine h resultList =
     (if length (h resultList) > 0
      then (h(resultList := Array_sort engine compareFn (h resultList)), resultList)
      else (h, resultList))"


section \<open>The DDO cache and the local lookup (findDdoHandler.ts)\<close>

text \<open>
  The node state the two cache routines touch. \<^verbatim>\<open>OceanP2P\<close>, its \<^verbatim>\<open>DDOCache\<close> and the
  constant \<^verbatim>\<open>CACHE_TTL\<close> are declared in the P2P module, which is not among the source
  files; they are modelled from the way findDdoHandler.ts uses them:
  \<^item> \<^verbatim>\<open>node.getDDOCache()\<close> is an object with a number \<^verbatim>\<open>updated\<close> and a
    \<^verbatim>\<open>Map\<close> \<^verbatim>\<open>dht\<close> from identifiers to \<^verbatim>\<open>FindDDOResponse\<close>
    (\<^verbatim>\<open>has\<close>, \<^verbatim>\<open>get\<close>, \<^verbatim>\<open>set\<close>);
  \<^item> \<^verbatim>\<open>node.getDatabase().ddo.retrieve(id)\<close> yields a stored document or nothing; of the
    document the code reads \<^verbatim>\<open>id\<close>, \<^verbatim>\<open>event.tx\<close> and \<^verbatim>\<open>metadata.updated\<close>;
  \<^item> \<^verbatim>\<open>node.getPeerId()\<close> is the node's own peer id;
  \<^item> \<^verbatim>\<open>CACHE_TTL\<close> is a parameter of \<open>hasCachedDDO\<close>, and so is the clock reading
    \<^verbatim>\<open>new Date().getTime()\<close>.
  The messages written to \<^verbatim>\<open>P2P_CONSOLE_LOGGER\<close> are kept with the node state.
\<close>

record DDO =
  ddo_id :: string  \<comment> \<open>\<^verbatim>\<open>ddo.id\<close>\<close>
  event_tx :: string  \<comment> \<open>\<^verbatim>\<open>ddo.event.tx\<close>\<close>
  metadata_updated :: int  \<comment> \<open>\<^verbatim>\<open>ddo.metadata.updated\<close>, as a time value\<close>

record DDOCache =
  updated :: int
  dht :: "string \<rightharpoonup> FindDDOResponse"

datatype LogEntry = CacheExpired string int
  \<comment> \<open>"DDO cache for (id) has expired, cache age(secs): (age / 1000)": the id and the age in ms\<close>

record OceanP2P =
  getDDOCache :: DDOCache
  getDatabase :: "string \<rightharpoonup> DDO"
  getPeerId :: string
  logger :: "LogEntry list"

record FindDDOCommand =
  task_id :: string  \<comment> \<open>\<^verbatim>\<open>task.id\<close>\<close>

text \<open>
  \<open>hasCachedDDO\<close> (lines 12--29) only reads the cache; the state it returns differs
  from the one it was given by the logged message at most.
\<close>

definition hasCachedDDO ::
  "int \<Rightarrow> int \<Rightarrow> FindDDOCommand \<Rightarrow> OceanP2P \<Rightarrow> bool \<times> OceanP2P" where
  "hasCachedDDO CACHE_TTL now task node =
     (if dht (getDDOCache node) (task_id task) \<noteq> None
      then (let cacheTime = updated (getDDOCache node)
            in if now - cacheTime \<le> CACHE_TTL then (True, node)
               else (False,
                     node\<lparr>logger := logger node @ [CacheExpired (task_id task) (now - cacheTime)]\<rparr>))
      else (False, node))"

text \<open>
  \<open>findDDOLocally\<close> (lines 54--82). \<^verbatim>\<open>dht.set\<close> writes the map only: the cache's
  \<^verbatim>\<open>updated\<close> stamp is not assigned anywhere in the function.
\<close>

definition dht_set :: "string \<Rightarrow> FindDDOResponse \<Rightarrow> OceanP2P \<Rightarrow> OceanP2P" where
  "dht_set k v node =
     node\<lparr>getDDOCache := (getDDOCache node)\<lparr>dht := (dht (getDDOCache node))(k \<mapsto> v)\<rparr>\<rparr>"

definition findDDOLocally :: "OceanP2P \<Rightarrow> string \<Rightarrow> FindDDOResponse option \<times> OceanP2P" where
  "findDDOLocally node i =
     (case getDatabase node i of
        Some ddo \<Rightarrow>
          (let ddoInfo = \<lparr>id' = ddo_id ddo, lastUpdateTx = event_tx ddo,
                          lastUpdateTime = metadata_updated ddo, provider = getPeerId node\<rparr>
           in case dht (getDDOCache node) (ddo_id ddo) of
                None \<Rightarrow> (Some ddoInfo, dht_set (ddo_id ddo) ddoInfo node)
              | Some localCachedData \<Rightarrow>
                  if Date_gt (new_Date (lastUpdateTime ddoInfo))
                             (new_Date (lastUpdateTime localCachedData))
                  then (Some ddoInfo, dht_set (ddo_id ddo) ddoInfo node)
                  else (Some ddoInfo, node))
      | None \<Rightarrow> (None, node))"

text \<open>
  The spec's words for the same check (4.2 and the data model's FreshnessCacheEntry):
  every cached entry carries its own \<^verbatim>\<open>insertedAt\<close>, the time of its insertion or last
  refresh, and \<^verbatim>\<open>isCachedAndFresh\<close> holds iff the entry is present and
  \<^verbatim>\<open>now - insertedAt <= TTL\<close>. It is stated here only to be compared with
  \<open>hasCachedDDO\<close>.
\<close>

record FreshnessCacheEntry =
  cached :: FindDDOResponse
  insertedAt :: int

definition isCachedAndFresh ::
  "int \<Rightarrow> int \<Rightarrow> (string \<rightharpoonup> FreshnessCacheEntry) \<Rightarrow> string \<Rightarrow> bool" where
  "isCachedAndFresh TTL now cache i =
     (case cache i of None \<Rightarrow> False | Some e \<Rightarrow> now - insertedAt e \<le> TTL)"

text \<open>
  The spec's \<^verbatim>\<open>put(id, record)\<close> (4.1): an unconditional overwrite that stamps the entry
  with the time of the insertion.
\<close>

definition FreshnessCache_put ::
  "int \<Rightarrow> string \<Rightarrow> FindDDOResponse \<Rightarrow> (string \<rightharpoonup> FreshnessCacheEntry)
   \<Rightarrow> (string \<rightharpoonup> FreshnessCacheEntry)" where
  "FreshnessCache_put now i r cache = cache(i \<mapsto> \<lparr>cached = r, insertedAt = now\<rparr>)"


section \<open>The RPC connectivity manager (blockchain.ts)\<close>

text \<open>
  The class \<^verbatim>\<open>Blockchain\<close> holds a provider, a signing wallet, the list of known RPC
  endpoints and the flag \<^verbatim>\<open>networkAvailable\<close>. Of an ethers provider the model keeps
  the endpoint it was built on, whether \<^verbatim>\<open>networkChanged\<close> is registered on it for
  the \<^verbatim>\<open>network\<close> event, and the property that handler writes on it (see
  \<open>networkChanged\<close> below); of a wallet, its key and the endpoint of the provider it
  is connected to. \<^verbatim>\<open>process.env.PRIVATE_KEY\<close> is the parameter \<open>PRIVATE_KEY\<close>; building a
  provider or a wallet is taken to succeed (the constructor of the class has already
  built a wallet from the same key).
\<close>

record JsonRpcApiProvider =
  endpoint :: string
  networkListener :: bool
  handlerWrote :: "bool option"

record Wallet =
  privateKey :: string
  connectedTo :: string

record Network =
  networkName :: string
  networkChainId :: int

record Blockchain =
  signer :: Wallet
  provider' :: JsonRpcApiProvider  \<comment> \<open>the field \<^verbatim>\<open>provider\<close>\<close>
  chainId :: int
  knownRPCs :: "string list"
  network :: Network
  networkAvailable :: bool

text \<open>
  What the outside world answers for an endpoint: the \<^verbatim>\<open>network\<close> events its provider
  emits while the caller sleeps (for each, whether the payload is an instance of
  \<^verbatim>\<open>Network\<close>), the provider's \<^verbatim>\<open>ready\<close> flag, and the outcome of
  \<^verbatim>\<open>provider._detectNetwork()\<close>: a value that is or is not a \<^verbatim>\<open>Network\<close>, or a
  rejection.
\<close>

datatype DetectResult = Detected bool | DetectFailed

record Endpoint =
  notifications :: "bool list"
  ready :: bool
  detect :: DetectResult

text \<open>The effects of the fallback walk, in the order they happen.\<close>

datatype Action =
    Off string  \<comment> \<open>\<^verbatim>\<open>provider.off('network', networkChanged)\<close> on the provider of this endpoint\<close>
  | Warn string  \<comment> \<open>"Retrying new provider connection with RPC: ..."\<close>
  | NewProvider string  \<comment> \<open>\<^verbatim>\<open>new JsonRpcProvider(rpc)\<close>\<close>
  | NewWallet string  \<comment> \<open>\<^verbatim>\<open>new ethers.Wallet(PRIVATE_KEY, provider)\<close>, by the provider's endpoint\<close>
  | On string  \<comment> \<open>\<^verbatim>\<open>provider.on('network', networkChanged)\<close>\<close>
  | Sleep nat  \<comment> \<open>\<^verbatim>\<open>sleep(ms)\<close>\<close>
  | NetworkReady bool  \<comment> \<open>what \<^verbatim>\<open>isNetworkReady()\<close> returned\<close>

text \<open>
  \<^verbatim>\<open>registerForNetworkEvents\<close> (lines 98--100) hands \<^verbatim>\<open>this.networkChanged\<close> to
  \<^verbatim>\<open>provider.on\<close> as a bare function, not bound to the \<^verbatim>\<open>Blockchain\<close> object. When
  the provider emits an event it calls the handler with the provider as \<^verbatim>\<open>this\<close>, so
  the assignment \<^verbatim>\<open>this.networkAvailable = ...\<close> of \<^verbatim>\<open>networkChanged\<close> (lines 102--107)
  writes a property of the provider (\<open>handlerWrote\<close>); the flag \<^verbatim>\<open>networkAvailable\<close> of
  the \<^verbatim>\<open>Blockchain\<close> object, which \<^verbatim>\<open>isNetworkReady\<close> reads, is never written.
\<close>

definition registerForNetworkEvents :: "Blockchain \<Rightarrow> Blockchain" where
  "registerForNetworkEvents this = this\<lparr>provider' := (provider' this)\<lparr>networkListener := True\<rparr>\<rparr>"

definition networkChanged :: "JsonRpcApiProvider \<Rightarrow> bool \<Rightarrow> JsonRpcApiProvider" where
  "networkChanged receiver newNetwork_instanceof_Network =
     receiver\<lparr>handlerWrote := Some newNetwork_instanceof_Network\<rparr>"

text \<open>The constructor (lines 23--39): the primary endpoint first, then the fallbacks.\<close>

definition new_Blockchain ::
  "string \<Rightarrow> string \<Rightarrow> string \<Rightarrow> int \<Rightarrow> string list option \<Rightarrow> Blockchain" where
  "new_Blockchain PRIVATE_KEY rpc chainName chainId' fallbackRPCs =
     (let known = [] @ [rpc];
          known = (case fallbackRPCs of
                     Some fs \<Rightarrow> if length fs > 0 then known @ fs else known
                   | None \<Rightarrow> known);
          net = \<lparr>networkName = chainName, networkChainId = chainId'\<rparr>;
          this = \<lparr>signer = \<lparr>privateKey = PRIVATE_KEY, connectedTo = rpc\<rparr>,
                  provider' = \<lparr>endpoint = rpc, networkListener = False, handlerWrote = None\<rparr>,
                  chainId = chainId', knownRPCs = known, network = net,
                  networkAvailable = False\<rparr>
      in registerForNetworkEvents this)"

definition detectNetwork :: "(string \<Rightarrow> Endpoint) \<Rightarrow> Blockchain \<Rightarrow> bool" where
  "detectNetwork world this =
     (case detect (world (endpoint (provider' this))) of
        Detected is_Network \<Rightarrow> is_Network
      | DetectFailed \<Rightarrow> False)"

definition isNetworkReady :: "(string \<Rightarrow> Endpoint) \<Rightarrow> Blockchain \<Rightarrow> bool" where
  "isNetworkReady world this =
     (if networkAvailable this \<or> ready (world (endpoint (provider' this))) then True
      else detectNetwork world this)"

text \<open>
  \<^verbatim>\<open>await sleep(ms)\<close>: while the caller is suspended, for whatever time, the events
  of the current provider reach \<^verbatim>\<open>networkChanged\<close>, if it is registered, with the
  provider as receiver. Which events arrive is the world's choice, none at all
  included; the properties of the walk are proved for every world.
\<close>

definition sleep :: "(string \<Rightarrow> Endpoint) \<Rightarrow> nat \<Rightarrow> Blockchain \<Rightarrow> Blockchain" where
  "sleep world ms this =
     (if networkListener (provider' this)
      then this\<lparr>provider' :=
             foldl networkChanged (provider' this)
               (notifications (world (endpoint (provider' this))))\<rparr>
      else this)"

text \<open>The body of the loop of \<^verbatim>\<open>tryFallbackRPCs\<close> (lines 80--92) for index \<open>i\<close>.\<close>

definition tryRPC ::
  "(string \<Rightarrow> Endpoint) \<Rightarrow> string \<Rightarrow> Blockchain \<Rightarrow> int \<Rightarrow> bool \<times> Blockchain \<times> Action list" where
  "tryRPC world PRIVATE_KEY this i =
     (let old = endpoint (provider' this);
          rpc = knownRPCs this ! nat i;
          this = this\<lparr>provider' := \<lparr>endpoint = rpc, networkListener = False,
                                      handlerWrote = None\<rparr>\<rparr>;
          this = this\<lparr>signer := \<lparr>privateKey = PRIVATE_KEY,
                                   connectedTo = endpoint (provider' this)\<rparr>\<rparr>;
          this = registerForNetworkEvents this;
          this = sleep world 2000 this;
          ok = isNetworkReady world this
      in (ok, this,
          [Off old, Warn rpc, NewProvider rpc, NewWallet rpc, On rpc, Sleep 2000,
           NetworkReady ok]))"

text \<open>
  The loop \<^verbatim>\<open>for (let i = this.knownRPCs.length - 1; i >= 0; i--)\<close>; the index stays
  within the list, so \<^verbatim>\<open>knownRPCs[i]\<close> is always an element.
\<close>

function tryFallbackRPCs_from ::
  "(string \<Rightarrow> Endpoint) \<Rightarrow> string \<Rightarrow> Blockchain \<Rightarrow> int \<Rightarrow> bool \<times> Blockchain \<times> Action list" where
  "tryFallbackRPCs_from world PRIVATE_KEY this i =
     (if i \<ge> 0
      then (case tryRPC world PRIVATE_KEY this i of
              (ok, this', acts) \<Rightarrow>
                if ok then (True, this', acts)
                else (case tryFallbackRPCs_from world PRIVATE_KEY this' (i - 1) of
                        (r, this'', acts') \<Rightarrow> (r, this'', acts @ acts')))
      else (False, this, []))"
  by pat_completeness auto
termination
  by (relation "measure (\<lambda>(world, k, this, i). nat (i + 1))") auto

declare tryFallbackRPCs_from.simps [simp del]

definition tryFallbackRPCs ::
  "(string \<Rightarrow> Endpoint) \<Rightarrow> string \<Rightarrow> Blockchain \<Rightarrow> bool \<times> Blockchain \<times> Action list" where
  "tryFallbackRPCs world PRIVATE_KEY this =
     tryFallbackRPCs_from world PRIVATE_KEY this (int (length (knownRPCs this)) - 1)"

text \<open>The endpoints a trace built providers for, and the answers it got, in order.\<close>

fun triedRPCs :: "Action list \<Rightarrow> string list" where
  "triedRPCs [] = []"
| "triedRPCs (NewProvider rpc # as) = rpc # triedRPCs as"
| "triedRPCs (a # as) = triedRPCs as"

fun readyAnswers :: "Action list \<Rightarrow> bool list" where
  "readyAnswers [] = []"
| "readyAnswers (NetworkReady b # as) = b # readyAnswers as"
| "readyAnswers (a # as) = readyAnswers as"

text \<open>
  The effects of one attempt that starts with the provider of \<open>old\<close>, tries \<open>rpc\<close> and
  gets the answer \<open>ok\<close>; the trace of successive attempts on a list of endpoints, each
  starting from the provider the one before it left; and the answers of a walk of \<open>k\<close>
  attempts that returns \<open>r\<close>: all of them false, but the last one when \<open>r\<close> is true.
\<close>

definition attemptActions :: "string \<Rightarrow> string \<Rightarrow> bool \<Rightarrow> Action list" where
  "attemptActions old rpc ok =
     [Off old, Warn rpc, NewProvider rpc, NewWallet rpc, On rpc, Sleep 2000, NetworkReady ok]"

fun attemptsTrace :: "string \<Rightarrow> string list \<Rightarrow> bool list \<Rightarrow> Action list" where
  "attemptsTrace old (rpc # rpcs) (ok # oks) =
     attemptActions old rpc ok @ attemptsTrace rpc rpcs oks"
| "attemptsTrace old rpcs oks = []"

definition walkAnswers :: "bool \<Rightarrow> nat \<Rightarrow> bool list" where
  "walkAnswers r k = (if r then replicate (k - 1) False @ [True] else replicate k False)"

section \<open>Message verification (blockchain.ts)\<close>

text \<open>
  \<^verbatim>\<open>isAddress\<close> and \<^verbatim>\<open>ethers.verifyMessage\<close> are library functions and parameters
  here; the second recovers the signer's address or throws. \<^verbatim>\<open>toLowerCase\<close> is the
  lower-casing of the ASCII letters, the only letters of an address.
\<close>

datatype Error = Error string

datatype Message = Text string | Bytes "nat list"  \<comment> \<open>\<^verbatim>\<open>string | Uint8Array\<close>\<close>

definition lowerChar :: "char \<Rightarrow> char" where
  "lowerChar c =
     (let n = (of_char c :: nat) in if 65 \<le> n \<and> n \<le> 90 then char_of (n + 32) else c)"

definition toLowerCase :: "string \<Rightarrow> string" where
  "toLowerCase s = map lowerChar s"

text \<open>The body of the \<^verbatim>\<open>try\<close> block (lines 136--144); \<open>Inl\<close> is a thrown error.\<close>

definition verifyMessage_try ::
  "(string \<Rightarrow> bool) \<Rightarrow> (Message \<Rightarrow> string \<Rightarrow> Error + string) \<Rightarrow>
   Message \<Rightarrow> string \<Rightarrow> string \<Rightarrow> Error + bool" where
  "verifyMessage_try isAddress ethers_verifyMessage message address signature =
     (if \<not> isAddress address then Inr False
      else (case ethers_verifyMessage message signature of
              Inl err \<Rightarrow> Inl err
            | Inr signerAddr \<Rightarrow>
                if toLowerCase signerAddr \<noteq> toLowerCase address then Inr False
                else Inr True))"

text \<open>\<^verbatim>\<open>try { ... } catch (err) { return false }\<close> (lines 135--147).\<close>

definition verifyMessage ::
  "(string \<Rightarrow> bool) \<Rightarrow> (Message \<Rightarrow> string \<Rightarrow> Error + string) \<Rightarrow>
   Message \<Rightarrow> string \<Rightarrow> string \<Rightarrow> Error + bool" where
  "verifyMessage isAddress ethers_verifyMessage message address signature =
     (case verifyMessage_try isAddress ethers_verifyMessage message address signature of
        Inl err \<Rightarrow> Inr False
      | Inr b \<Rightarrow> Inr b)"

section \<open>Storage back ends (storage/index.ts)\<close>

text \<open>
  A file object, as \<^verbatim>\<open>getStorageClass\<close> and the three classes read it: the fields
  \<^verbatim>\<open>type\<close>, \<^verbatim>\<open>url\<close>, \<^verbatim>\<open>method\<close>, \<^verbatim>\<open>transactionId\<close> and \<^verbatim>\<open>hash\<close>, each a string
  or missing (\<open>None\<close>). The two gateway variables of \<^verbatim>\<open>process.env\<close> are strings or
  unset.

  A storage object keeps the file object it was given by reference (the constructor of
  \<^verbatim>\<open>Storage\<close>, lines 82--84, stores it and \<^verbatim>\<open>getFile\<close> hands it back), and every
  call of \<^verbatim>\<open>validate\<close> or \<^verbatim>\<open>getDownloadUrl\<close> reads the object again. The store
  \<open>objects\<close> maps every reference to the current contents of its object; whoever
  holds the reference can write to the object between two calls.
\<close>

record FileObject =
  type' :: "string option"  \<comment> \<open>the field \<^verbatim>\<open>type\<close>\<close>
  url :: "string option"
  method' :: "string option"  \<comment> \<open>the field \<^verbatim>\<open>method\<close>\<close>
  transactionId :: "string option"
  hash :: "string option"

record ProcessEnv =
  ARWEAVE_GATEWAY :: "string option"
  IPFS_GATEWAY :: "string option"

type_synonym fileRef = nat
type_synonym fileStore = "fileRef \<Rightarrow> FileObject"

datatype Storage = UrlStorage fileRef | IpfsStorage fileRef | ArweaveStorage fileRef

fun getFile :: "Storage \<Rightarrow> fileRef" where
  "getFile (UrlStorage file) = file"
| "getFile (IpfsStorage file) = file"
| "getFile (ArweaveStorage file) = file"

text \<open>\<^verbatim>\<open>!x\<close> for a value that is a string or undefined: true when it is missing or empty.\<close>

definition falsy :: "string option \<Rightarrow> bool" where
  "falsy x = (case x of None \<Rightarrow> True | Some s \<Rightarrow> s = [])"

definition startsWith :: "string \<Rightarrow> string \<Rightarrow> bool" where
  "startsWith s p = (take (length p) s = p)"

text \<open>
  \<^verbatim>\<open>/^(.+)\/([^/]+)$/.test(url)\<close>: the text is split at a slash into a non-empty part
  without line terminators and a non-empty part without slashes. The second part has no
  slash, so the split is at the last slash of the text.
\<close>

definition lineTerminator :: "char \<Rightarrow> bool" where
  "lineTerminator c = (c = CHR 0x0A \<or> c = CHR 0x0D)"

definition pathRegex_test :: "string \<Rightarrow> bool" where
  "pathRegex_test s =
     (let r = rev s;
          lastPart = takeWhile (\<lambda>c. c \<noteq> CHR ''/'') r;
          rest = dropWhile (\<lambda>c. c \<noteq> CHR ''/'') r
      in case rest of
           [] \<Rightarrow> False
         | slash # firstPart \<Rightarrow>
             firstPart \<noteq> [] \<and> \<not> list_ex lineTerminator firstPart \<and> lastPart \<noteq> [])"

text \<open>\<^verbatim>\<open>UrlStorage.isFilePath\<close> (lines 170--178), called once \<^verbatim>\<open>url\<close> is known to be a string.\<close>

definition isFilePath :: "string \<Rightarrow> bool" where
  "isFilePath u =
     (if startsWith u ''http://'' \<or> startsWith u ''https://'' then False
      else pathRegex_test u)"

text \<open>\<^verbatim>\<open>UrlStorage.validate\<close> (lines 155--168), on the contents of the file object.\<close>

definition UrlStorage_validate :: "FileObject \<Rightarrow> bool \<times> string" where
  "UrlStorage_validate file =
     (if falsy (url file) \<or> falsy (method' file) then (False, ''URL or method are missing'')
      else if toLowerCase (the (method' file)) \<notin> set [''get'', ''post'']
        then (False, ''Invalid method for URL'')
      else if isFilePath (the (url file)) = True then (False, ''URL looks like a file path'')
      else (True, []))"

text \<open>\<^verbatim>\<open>ArweaveStorage.validate\<close> (lines 224--233) and \<^verbatim>\<open>IpfsStorage.validate\<close> (280--290).\<close>

definition ArweaveStorage_validate :: "ProcessEnv \<Rightarrow> FileObject \<Rightarrow> bool \<times> string" where
  "ArweaveStorage_validate env file =
     (if falsy (ARWEAVE_GATEWAY env) then (False, ''Arweave gateway is not provided!'')
      else if falsy (transactionId file) then (False, ''Missing transaction ID'')
      else (True, []))"

definition IpfsStorage_validate :: "ProcessEnv \<Rightarrow> FileObject \<Rightarrow> bool \<times> string" where
  "IpfsStorage_validate env file =
     (if falsy (IPFS_GATEWAY env) then (False, ''IPFS gateway is not provided!'')
      else if falsy (hash file) then (False, ''Missing CID'')
      else (True, []))"

fun validate :: "ProcessEnv \<Rightarrow> fileStore \<Rightarrow> Storage \<Rightarrow> bool \<times> string" where
  "validate env objects (UrlStorage file) = UrlStorage_validate (objects file)"
| "validate env objects (IpfsStorage file) = IpfsStorage_validate env (objects file)"
| "validate env objects (ArweaveStorage file) = ArweaveStorage_validate env (objects file)"

text \<open>
  The three constructors (lines 147--153, 215--222, 271--278): each stores the file,
  validates and throws when validation says \<^verbatim>\<open>false\<close>.
\<close>

definition new_UrlStorage :: "ProcessEnv \<Rightarrow> fileStore \<Rightarrow> fileRef \<Rightarrow> Error + Storage" where
  "new_UrlStorage env objects file =
     (let this = UrlStorage file;
          (isValid, message) = validate env objects this
      in if isValid = False then Inl (Error (''Error validationg the URL file: '' @ message))
         else Inr this)"

definition new_ArweaveStorage :: "ProcessEnv \<Rightarrow> fileStore \<Rightarrow> fileRef \<Rightarrow> Error + Storage" where
  "new_ArweaveStorage env objects file =
     (let this = ArweaveStorage file;
          (isValid, message) = validate env objects this
      in if isValid = False then Inl (Error (''Error validationg the Arweave file: '' @ message))
         else Inr this)"

definition new_IpfsStorage :: "ProcessEnv \<Rightarrow> fileStore \<Rightarrow> fileRef \<Rightarrow> Error + Storage" where
  "new_IpfsStorage env objects file =
     (let this = IpfsStorage file;
          (isValid, message) = validate env objects this
      in if isValid = False then Inl (Error (''Error validationg the IPFS file: '' @ message))
         else Inr this)"

text \<open>
  \<^verbatim>\<open>Storage.getStorageClass\<close> (lines 95--107): a \<^verbatim>\<open>switch\<close> on \<^verbatim>\<open>file.type\<close>, which
  compares with \<^verbatim>\<open>===\<close>. The message of the default case prints the type, a missing
  one as \<^verbatim>\<open>undefined\<close>.
\<close>

definition getStorageClass :: "ProcessEnv \<Rightarrow> fileStore \<Rightarrow> fileRef \<Rightarrow> Error + Storage" where
  "getStorageClass env objects file =
     (let t = type' (objects file)
      in if t = Some ''url'' then new_UrlStorage env objects file
         else if t = Some ''ipfs'' then new_IpfsStorage env objects file
         else if t = Some ''arweave'' then new_ArweaveStorage env objects file
         else Inl (Error (''Invalid storage type: '' @
                          (case t of None \<Rightarrow> ''undefined'' | Some s \<Rightarrow> s))))"

text \<open>
  \<^verbatim>\<open>UrlStorage.getDownloadUrl\<close> (lines 180--185); \<open>None\<close> is the \<^verbatim>\<open>null\<close> of the
  second branch.
\<close>

definition UrlStorage_getDownloadUrl ::
  "ProcessEnv \<Rightarrow> fileStore \<Rightarrow> Storage \<Rightarrow> string option" where
  "UrlStorage_getDownloadUrl env objects this =
     (if fst (validate env objects this) = True then url (objects (getFile this)) else None)"

text \<open>The type tag of the class of a storage object.\<close>

fun className :: "Storage \<Rightarrow> string" where
  "className (UrlStorage file) = ''url''"
| "className (IpfsStorage file) = ''ipfs''"
| "className (ArweaveStorage file) = ''arweave''"

section \<open>Inputs for the concrete checks\<close>

text \<open>A candidate record for the identifier \<^verbatim>\<open>ddo-1\<close>, by its provider and its time stamp.\<close>

definition candidate :: "string \<Rightarrow> int \<Rightarrow> FindDDOResponse" where
  "candidate p t =
     \<lparr>id' = ''ddo-1'', lastUpdateTx = ''0xabc'', lastUpdateTime = t, provider = p\<rparr>"

text \<open>
  A node with peer id \<^verbatim>\<open>self\<close> whose store holds \<^verbatim>\<open>ddo-1\<close>, last updated at time 100,
  and whose cache, stamped at time 0, holds the given entries.
\<close>

definition exampleNode :: "(string \<rightharpoonup> FindDDOResponse) \<Rightarrow> OceanP2P" where
  "exampleNode entries =
     \<lparr>getDDOCache = \<lparr>updated = 0, dht = entries\<rparr>,
      getDatabase =
        [''ddo-1'' \<mapsto> \<lparr>ddo_id = ''ddo-1'', event_tx = ''0xabc'', metadata_updated = 100\<rparr>],
      getPeerId = ''self'', logger = []\<rparr>"

text \<open>
  A world in which the endpoints listed as reachable are detected by the active probe
  and the others reject it; no provider reports itself ready or emits an event.
\<close>

definition exampleWorld :: "string list \<Rightarrow> string \<Rightarrow> Endpoint" where
  "exampleWorld reachable rpc =
     \<lparr>notifications = [], ready = False,
      detect = (if rpc \<in> set reachable then Detected True else DetectFailed)\<rparr>"

text \<open>
  A recovery function that yields the signer \<^verbatim>\<open>0xAbCdEf\<close> for the signature
  \<^verbatim>\<open>0xsig\<close> and throws for any other; a file object by its type, url and method.
\<close>

definition exampleRecover :: "Message \<Rightarrow> string \<Rightarrow> Error + string" where
  "exampleRecover message signature =
     (if signature = ''0xsig'' then Inr ''0xAbCdEf'' else Inl (Error ''invalid signature''))"

definition exampleFile :: "string \<Rightarrow> string option \<Rightarrow> string option \<Rightarrow> FileObject" where
  "exampleFile t u m =
     \<lparr>type' = Some t, url = u, method' = m, transactionId = None, hash = None\<rparr>"


section \<open>Properties of the result-sorting routine\<close>

text \<open>
  On valid dates the comparator orders by time, later first; on equal time stamps,
  valid or not, it answers \<open>0\<close>.
\<close>

lemma compareFn_valid:
  "validDate (lastUpdateTime a) \<Longrightarrow> validDate (lastUpdateTime b) \<Longrightarrow>
   compareFn a b =
     (if lastUpdateTime b > lastUpdateTime a then 1
      else if lastUpdateTime b < lastUpdateTime a then - 1 else 0)"
  by (auto simp: compareFn_def validDate_def new_Date_def Date_gt_def Date_lt_def Let_def
      split: if_splits)

lemma compareFn_same: "lastUpdateTime a = lastUpdateTime b \<Longrightarrow> compareFn a b = 0"
  by (auto simp: compareFn_def new_Date_def Date_gt_def Date_lt_def Let_def)

text \<open>
  The comparator is consistent on a list of valid dates, on a list of at most one
  record, and on two records with the same time stamp. It is not consistent as soon
  as it answers \<open>0\<close> for \<open>a\<close>, \<open>b\<close> and for \<open>b\<close>, \<open>c\<close> but not for \<open>a\<close>, \<open>c\<close>: a
  record with an Invalid Date between two different valid dates.
\<close>

lemma consistentComparator_valid:
  assumes "\<forall>r\<in>set xs. validDate (lastUpdateTime r)"
  shows "consistentComparator compareFn xs"
  unfolding consistentComparator_def list_all_iff
  using assms by (auto simp: compareFn_valid split: if_splits)

lemma consistentComparator_short: "length xs \<le> 1 \<Longrightarrow> consistentComparator compareFn xs"
  by (cases xs) (auto simp: consistentComparator_def compareFn_same le_Suc_eq)

lemma consistentComparator_tie:
  "lastUpdateTime a = lastUpdateTime b \<Longrightarrow> consistentComparator compareFn [a, b]"
  by (simp add: consistentComparator_def compareFn_same)

lemma not_consistentComparator:
  "a \<in> set xs \<Longrightarrow> b \<in> set xs \<Longrightarrow> c \<in> set xs \<Longrightarrow> cmp a b = 0 \<Longrightarrow> cmp b c = 0 \<Longrightarrow>
   cmp a c \<noteq> 0 \<Longrightarrow> \<not> consistentComparator cmp xs"
  unfolding consistentComparator_def list_all_iff by blast

text \<open>
  On valid dates the sort is the library's stable sort by the key \<open>- lastUpdateTime\<close>,
  whatever the engine, which gives its permutation, order and stability properties.
\<close>

lemma Array_insert_insort_key:
  "validDate (lastUpdateTime x) \<Longrightarrow> \<forall>r\<in>set ys. validDate (lastUpdateTime r) \<Longrightarrow>
   Array_insert compareFn x ys = insort_key (\<lambda>r. - lastUpdateTime r) x ys"
  by (induction ys) (auto simp: compareFn_valid)

lemma Array_stableSort_sort_key:
  "\<forall>r\<in>set xs. validDate (lastUpdateTime r) \<Longrightarrow>
   Array_stableSort compareFn xs = sort_key (\<lambda>r. - lastUpdateTime r) xs"
  by (induction xs) (simp_all add: Array_insert_insort_key)

lemma Array_sort_sort_key:
  "\<forall>r\<in>set xs. validDate (lastUpdateTime r) \<Longrightarrow>
   Array_sort engine compareFn xs = sort_key (\<lambda>r. - lastUpdateTime r) xs"
  by (simp add: Array_sort_def consistentComparator_valid Array_stableSort_sort_key)

text \<open>The stable insertion sort only reorders, and leaves a short list as it is.\<close>

lemma mset_Array_insert: "mset (Array_insert cmp x ys) = add_mset x (mset ys)"
  by (induction ys) simp_all

lemma mset_Array_stableSort: "mset (Array_stableSort cmp xs) = mset xs"
  by (induction xs) (simp_all add: mset_Array_insert)

lemma Array_stableSort_short: "length xs \<le> 1 \<Longrightarrow> Array_stableSort cmp xs = xs"
  by (cases xs) (auto simp: le_Suc_eq)

lemma Array_sort_short: "length xs \<le> 1 \<Longrightarrow> Array_sort engine compareFn xs = xs"
  by (simp add: Array_sort_def consistentComparator_short Array_stableSort_short)

lemma Array_sort_tie:
  "lastUpdateTime a = lastUpdateTime b \<Longrightarrow> Array_sort engine compareFn [a, b] = [a, b]"
  by (simp add: Array_sort_def consistentComparator_tie compareFn_same)


lemma mset_Array_sort:
  "\<forall>r\<in>set xs. validDate (lastUpdateTime r) \<Longrightarrow> mset (Array_sort engine compareFn xs) = mset xs"
  by (simp add: Array_sort_sort_key)

lemma mset_Array_sort_engine:
  "\<forall>xs. mset (engine compareFn xs) = mset xs \<Longrightarrow> mset (Array_sort engine compareFn xs) = mset xs"
  by (simp add: Array_sort_def mset_Array_stableSort)

lemma set_Array_sort:
  "\<forall>r\<in>set xs. validDate (lastUpdateTime r) \<Longrightarrow> set (Array_sort engine compareFn xs) = set xs"
  by (simp add: Array_sort_sort_key)

lemma length_Array_sort:
  "\<forall>r\<in>set xs. validDate (lastUpdateTime r) \<Longrightarrow>
   length (Array_sort engine compareFn xs) = length xs"
  by (simp add: Array_sort_sort_key)

lemma sorted_Array_sort:
  "\<forall>r\<in>set xs. validDate (lastUpdateTime r) \<Longrightarrow>
   sorted (map (\<lambda>r. - lastUpdateTime r) (Array_sort engine compareFn xs))"
  by (simp add: Array_sort_sort_key)

lemma descending_Array_sort:
  "\<forall>r\<in>set xs. validDate (lastUpdateTime r) \<Longrightarrow>
   sorted_wrt (\<lambda>a b. lastUpdateTime b \<le> lastUpdateTime a) (Array_sort engine compareFn xs)"
  using sorted_Array_sort [of xs engine] by (simp add: sorted_map)

lemma Array_sort_stable:
  "\<forall>r\<in>set xs. validDate (lastUpdateTime r) \<Longrightarrow>
   filter (\<lambda>r. lastUpdateTime r = t) (Array_sort engine compareFn xs)
     = filter (\<lambda>r. lastUpdateTime r = t) xs"
  using sort_key_stable [of "\<lambda>r. - lastUpdateTime r" "- t" xs]
  by (simp add: Array_sort_sort_key)

text \<open>
  Any stable arrangement of valid dates in descending order is the one computed here:
  the result does not depend on the sorting algorithm of the engine.
\<close>

lemma Array_sort_unique:
  assumes "\<forall>r\<in>set xs. validDate (lastUpdateTime r)"
    and "mset ys = mset xs"
    and "sorted_wrt (\<lambda>a b. lastUpdateTime b \<le> lastUpdateTime a) ys"
    and "\<And>t. filter (\<lambda>r. lastUpdateTime r = t) ys = filter (\<lambda>r. lastUpdateTime r = t) xs"
  shows "ys = Array_sort engine compareFn xs"
proof -
  have "sorted (map (\<lambda>r. - lastUpdateTime r) ys)"
    using assms(3) by (simp add: sorted_map)
  moreover have "filter (\<lambda>x. - lastUpdateTime k = - lastUpdateTime x) ys
        = filter (\<lambda>x. - lastUpdateTime k = - lastUpdateTime x) xs" for k :: FindDDOResponse
    using assms(4) [of "lastUpdateTime k"] by (simp add: eq_commute [of "lastUpdateTime k"])
  ultimately have "sort_key (\<lambda>r. - lastUpdateTime r) xs = ys"
    using assms(2) by (intro properties_for_sort_key) auto
  then show ?thesis using assms(1) by (simp add: Array_sort_sort_key)
qed

lemma Array_sort_head_max:
  assumes "\<forall>r\<in>set xs. validDate (lastUpdateTime r)" "xs \<noteq> []" "x \<in> set xs"
  shows "lastUpdateTime x \<le> lastUpdateTime (Array_sort engine compareFn xs ! 0)"
proof -
  let ?s = "Array_sort engine compareFn xs"
  have ne: "?s \<noteq> []" using assms(1,2) length_Array_sort [of xs engine] by auto
  have "x \<in> set ?s" using assms(1,3) by (simp add: set_Array_sort)
  then obtain i where i: "i < length ?s" "?s ! i = x" by (auto simp: in_set_conv_nth)
  have "sorted (map (\<lambda>r. - lastUpdateTime r) ?s)" using assms(1) by (rule sorted_Array_sort)
  then have "map (\<lambda>r. - lastUpdateTime r) ?s ! 0 \<le> map (\<lambda>r. - lastUpdateTime r) ?s ! i"
    using i(1) by (intro sorted_nth_mono) auto
  then show ?thesis using i ne by simp
qed

lemma Array_sort_head_in:
  assumes "\<forall>r\<in>set xs. validDate (lastUpdateTime r)" "xs \<noteq> []"
  shows "Array_sort engine compareFn xs ! 0 \<in> set xs"
proof -
  have "Array_sort engine compareFn xs \<noteq> []"
    using assms length_Array_sort [of xs engine] by auto
  then have "Array_sort engine compareFn xs ! 0 \<in> set (Array_sort engine compareFn xs)" by simp
  then show ?thesis using assms(1) by (simp add: set_Array_sort)
qed

text \<open>
  Claim C1, as stated, fails: a time stamp beyond the range of \<^verbatim>\<open>Date\<close> makes an
  Invalid Date, which the comparator puts on a par with every record. The list (local
  at time 1, peer at time 8640000000000001) comes back as it was, and the record at
  index 0 has the smaller \<open>lastUpdateTime\<close>.
\<close>

theorem sortFindDDOResults_out_of_range_counterexample:
  "fst (sortFindDDOResults V8_sort
          (\<lambda>a. [candidate ''local'' 1, candidate ''peer'' 8640000000000001]) 0) 0
     = [candidate ''local'' 1, candidate ''peer'' 8640000000000001]
   \<and> lastUpdateTime (fst (sortFindDDOResults V8_sort
          (\<lambda>a. [candidate ''local'' 1, candidate ''peer'' 8640000000000001]) 0) 0 ! 0)
     < lastUpdateTime (candidate ''peer'' 8640000000000001)"
  by (simp add: sortFindDDOResults_def Array_sort_def consistentComparator_def compareFn_def
      new_Date_def Date_gt_def Date_lt_def candidate_def)

text \<open>
  Claim C1, amended. For every non-empty list of candidates whose time stamps are all
  valid dates (at most 8.64e15 ms from the epoch), whatever the engine, the list
  \<open>sortFindDDOResults\<close> returns is non-empty and its element at index 0, the chosen
  record, is one of the candidates and has a \<open>lastUpdateTime\<close> greater than or equal
  to that of every candidate (of the input, and so of the returned list). Sorting an
  array that holds only the chosen record returns the one-element list with that
  record at index 0.
\<close>

theorem sortFindDDOResults_first_is_latest:
  assumes "h resultList \<noteq> []"
    and "\<forall>r\<in>set (h resultList). validDate (lastUpdateTime r)"
    and "sortFindDDOResults engine h resultList = (h', result)"
  shows "h' result \<noteq> [] \<and> h' result ! 0 \<in> set (h resultList)
       \<and> (\<forall>r \<in> set (h resultList). lastUpdateTime r \<le> lastUpdateTime (h' result ! 0))
       \<and> (\<forall>r \<in> set (h' result). lastUpdateTime r \<le> lastUpdateTime (h' result ! 0))
       \<and> (\<forall>again. case sortFindDDOResults engine (h'(again := [h' result ! 0])) again of
             (h'', result') \<Rightarrow>
               h'' result' = [h' result ! 0] \<and> h'' result' ! 0 = h' result ! 0)"
proof -
  from assms have res: "result = resultList"
      "h' result = Array_sort engine compareFn (h resultList)"
    by (auto simp: sortFindDDOResults_def)
  have "h' result \<noteq> []"
    using assms(1,2) length_Array_sort [of "h resultList" engine] res by auto
  moreover have "h' result ! 0 \<in> set (h resultList)"
    using assms(1,2) res by (simp add: Array_sort_head_in)
  moreover have "\<forall>r \<in> set (h resultList). lastUpdateTime r \<le> lastUpdateTime (h' result ! 0)"
    using assms(1,2) res by (simp add: Array_sort_head_max)
  moreover have "\<forall>r \<in> set (h' result). lastUpdateTime r \<le> lastUpdateTime (h' result ! 0)"
    using assms(1,2) res by (simp add: Array_sort_head_max set_Array_sort)
  moreover have "\<forall>again. case sortFindDDOResults engine (h'(again := [h' result ! 0])) again of
             (h'', result') \<Rightarrow>
               h'' result' = [h' result ! 0] \<and> h'' result' ! 0 = h' result ! 0"
    by (simp add: sortFindDDOResults_def Array_sort_short)
  ultimately show ?thesis by blast
qed

text \<open>
  At the candidates with time stamps 5, 9 and 7 the chosen record is the one stamped 9.
\<close>

theorem sortFindDDOResults_first_is_latest_witness:
  "(\<lambda>a. [candidate ''local'' 5, candidate ''peerA'' 9, candidate ''peerB'' 7]) (0::nat) \<noteq> []
   \<and> validDate (lastUpdateTime (candidate ''local'' 5))
   \<and> validDate (lastUpdateTime (candidate ''peerA'' 9))
   \<and> validDate (lastUpdateTime (candidate ''peerB'' 7))
   \<and> lastUpdateTime (fst (sortFindDDOResults V8_sort
         (\<lambda>a. [candidate ''local'' 5, candidate ''peerA'' 9, candidate ''peerB'' 7]) 0) 0 ! 0) = 9
   \<and> lastUpdateTime (candidate ''peerB'' 7)
       \<le> lastUpdateTime (fst (sortFindDDOResults V8_sort
         (\<lambda>a. [candidate ''local'' 5, candidate ''peerA'' 9, candidate ''peerB'' 7]) 0) 0 ! 0)"
proof -
  have v: "\<forall>r\<in>set [candidate ''local'' 5, candidate ''peerA'' 9, candidate ''peerB'' 7].
             validDate (lastUpdateTime r)"
    by (simp add: validDate_def new_Date_def candidate_def)
  show ?thesis
    using v sortFindDDOResults_first_is_latest
      [of "\<lambda>a. [candidate ''local'' 5, candidate ''peerA'' 9, candidate ''peerB'' 7]" 0 V8_sort
          "fst (sortFindDDOResults V8_sort
             (\<lambda>a. [candidate ''local'' 5, candidate ''peerA'' 9, candidate ''peerB'' 7]) 0)"
          "snd (sortFindDDOResults V8_sort
             (\<lambda>a. [candidate ''local'' 5, candidate ''peerA'' 9, candidate ''peerB'' 7]) 0)"]
    by (simp add: sortFindDDOResults_def Array_sort_sort_key candidate_def)
qed

text \<open>
  Claim C2, as stated, fails: \<^verbatim>\<open>sort\<close> works in place. After the call on the list
  (local at time 1, peer at time 2) the caller's own list holds the peer's record first.
\<close>

theorem sortFindDDOResults_input_unchanged_counterexample:
  "fst (sortFindDDOResults V8_sort (\<lambda>a. [candidate ''local'' 1, candidate ''peer'' 2]) 0) 0
     = [candidate ''peer'' 2, candidate ''local'' 1]
   \<and> fst (sortFindDDOResults V8_sort (\<lambda>a. [candidate ''local'' 1, candidate ''peer'' 2]) 0) 0
     \<noteq> [candidate ''local'' 1, candidate ''peer'' 2]"
  by (simp add: sortFindDDOResults_def Array_sort_def consistentComparator_def compareFn_def
      new_Date_def Date_gt_def Date_lt_def candidate_def)

text \<open>
  Claim C2, amended. \<open>sortFindDDOResults\<close> sorts the caller's list in place and returns
  that same list, and it never raises an error: no other list changes, a list of at
  most one element is left as it was, and an empty input is returned as an empty
  result. When the time stamps are all valid dates, the caller's list holds after the
  call the original elements (the same multiset) in descending order of
  \<open>lastUpdateTime\<close>. With an engine that only reorders, as ECMAScript requires of
  it, the list holds the original elements after the call whatever the time stamps.
\<close>

theorem sortFindDDOResults_in_place:
  "case sortFindDDOResults engine h resultList of
     (h', result) \<Rightarrow>
        result = resultList
      \<and> (\<forall>other. other \<noteq> resultList \<longrightarrow> h' other = h other)
      \<and> (length (h resultList) \<le> 1 \<longrightarrow> h' = h)
      \<and> (h resultList = [] \<longrightarrow> h' result = [])
      \<and> ((\<forall>r\<in>set (h resultList). validDate (lastUpdateTime r)) \<longrightarrow>
            mset (h' resultList) = mset (h resultList)
          \<and> sorted_wrt (\<lambda>a b. lastUpdateTime b \<le> lastUpdateTime a) (h' resultList))
      \<and> ((\<forall>xs. mset (engine compareFn xs) = mset xs) \<longrightarrow>
            mset (h' resultList) = mset (h resultList))"
  by (auto simp: sortFindDDOResults_def mset_Array_sort descending_Array_sort Array_sort_short
      mset_Array_sort_engine)


text \<open>The model of V8's sort only reorders the array.\<close>

lemma mset_take_drop: "mset (take n xs) + mset (drop n xs) = mset xs"
  by (metis append_take_drop_id mset_append)

lemma mset_insert_at: "mset (take n xs @ x # drop n xs) = add_mset x (mset xs)"
  using mset_take_drop [of n xs] by simp

lemma mset_V8_binaryInsertionSort:
  "mset (V8_binaryInsertionSort cmp sortedPart rest) = mset sortedPart + mset rest"
  by (induction rest arbitrary: sortedPart) (simp_all add: Let_def mset_insert_at del: mset_append)

lemma mset_V8_countAndMakeRun:
  "V8_countAndMakeRun cmp work = (run, rest) \<Longrightarrow> mset run + mset rest = mset work"
proof (cases work)
  case Nil
  assume "V8_countAndMakeRun cmp work = (run, rest)"
  with Nil show ?thesis by simp
next
  case (Cons elementHigh tl)
  assume r: "V8_countAndMakeRun cmp work = (run, rest)"
  show ?thesis
  proof (cases tl)
    case Nil
    with Cons r show ?thesis by simp
  next
    case (Cons elementLow rest')
    with \<open>work = elementHigh # tl\<close> have w: "work = elementHigh # elementLow # rest'" by simp
    obtain n where "mset run = mset (take n work)" "rest = drop n work"
      using r unfolding w by (auto simp: Let_def split: if_splits simp del: take_Suc_Cons drop_Suc_Cons)
    then show ?thesis using mset_take_drop [of n work] by simp
  qed
qed

lemma mset_V8_sort: "mset (V8_sort cmp work) = mset work"
  by (auto simp: V8_sort_def mset_V8_binaryInsertionSort mset_V8_countAndMakeRun
      split: prod.splits)

text \<open>
  A one-element list is returned as it is; sorting one list leaves another list alone;
  an empty list is returned empty; two valid dates are put in descending order; V8
  only reorders, and a list with an Invalid Date between two dates keeps its elements.
\<close>

theorem sortFindDDOResults_in_place_witness:
  "length ((\<lambda>a. [candidate ''local'' 1]) (0::nat)) \<le> 1
   \<and> sortFindDDOResults V8_sort (\<lambda>a. [candidate ''local'' 1]) 0
       = (\<lambda>a. [candidate ''local'' 1], 0)
   \<and> (1::nat) \<noteq> 0
   \<and> fst (sortFindDDOResults V8_sort
        (\<lambda>a. if a = 0 then [candidate ''local'' 1, candidate ''peer'' 2] else []) 0) 1 = []
   \<and> fst (sortFindDDOResults V8_sort
        (\<lambda>a. if a = 0 then [candidate ''local'' 1, candidate ''peer'' 2] else []) 1) 1 = []
   \<and> validDate (lastUpdateTime (candidate ''local'' 1))
   \<and> validDate (lastUpdateTime (candidate ''peer'' 2))
   \<and> fst (sortFindDDOResults V8_sort
        (\<lambda>a. if a = 0 then [candidate ''local'' 1, candidate ''peer'' 2] else []) 0) 0
       = [candidate ''peer'' 2, candidate ''local'' 1]
   \<and> mset (V8_sort compareFn [candidate ''late'' 8640000000000001]) 
       = mset [candidate ''late'' 8640000000000001]
   \<and> mset (fst (sortFindDDOResults V8_sort
        (\<lambda>a. [candidate ''p1'' 1, candidate ''p2'' 8640000000000001, candidate ''p3'' 2]) 0) 0)
       = mset [candidate ''p1'' 1, candidate ''p2'' 8640000000000001, candidate ''p3'' 2]"
proof -
  have v: "\<forall>r\<in>set [candidate ''local'' 1, candidate ''peer'' 2]. validDate (lastUpdateTime r)"
    by (simp add: validDate_def new_Date_def candidate_def)
  have p: "\<forall>xs. mset (V8_sort compareFn xs) = mset xs"
    by (simp add: mset_V8_sort)
  show ?thesis
    using v p
      sortFindDDOResults_in_place
        [where engine = V8_sort and h = "\<lambda>a. [candidate ''local'' 1]" and resultList = 0]
      sortFindDDOResults_in_place
        [where engine = V8_sort
           and h = "\<lambda>a. if a = 0 then [candidate ''local'' 1, candidate ''peer'' 2] else []"
           and resultList = 0]
      sortFindDDOResults_in_place
        [where engine = V8_sort
           and h = "\<lambda>a. if a = 0 then [candidate ''local'' 1, candidate ''peer'' 2] else []"
           and resultList = 1]
      sortFindDDOResults_in_place
        [where engine = V8_sort
           and h = "\<lambda>a. [candidate ''p1'' 1, candidate ''p2'' 8640000000000001, candidate ''p3'' 2]"
           and resultList = 0]
    by (simp add: sortFindDDOResults_def Array_sort_sort_key Array_sort_short candidate_def
        split: prod.splits)
qed

text \<open>
  Claim C3, as stated, fails: with an Invalid Date among different valid dates the
  comparator is not consistent and the order is the engine's. On the time stamps
  1, 1, 1, 8640000000000001, 2, 3, 2 V8 takes the first five records as a run and
  inserts the last two by binary search; the seventh record ends before the fifth,
  though both are stamped 2 and the fifth came first.
\<close>

theorem sortFindDDOResults_unstable_counterexample:
  "fst (sortFindDDOResults V8_sort
          (\<lambda>a. [candidate ''p1'' 1, candidate ''p2'' 1, candidate ''p3'' 1,
                 candidate ''p4'' 8640000000000001, candidate ''p5'' 2, candidate ''p6'' 3,
                 candidate ''p7'' 2]) 0) 0
     = [candidate ''p6'' 3, candidate ''p7'' 2, candidate ''p1'' 1, candidate ''p2'' 1,
        candidate ''p3'' 1, candidate ''p4'' 8640000000000001, candidate ''p5'' 2]
   \<and> filter (\<lambda>r. lastUpdateTime r = 2)
        [candidate ''p1'' 1, candidate ''p2'' 1, candidate ''p3'' 1,
         candidate ''p4'' 8640000000000001, candidate ''p5'' 2, candidate ''p6'' 3,
         candidate ''p7'' 2]
     = [candidate ''p5'' 2, candidate ''p7'' 2]
   \<and> filter (\<lambda>r. lastUpdateTime r = 2)
        (fst (sortFindDDOResults V8_sort
          (\<lambda>a. [candidate ''p1'' 1, candidate ''p2'' 1, candidate ''p3'' 1,
                 candidate ''p4'' 8640000000000001, candidate ''p5'' 2, candidate ''p6'' 3,
                 candidate ''p7'' 2]) 0) 0)
     = [candidate ''p7'' 2, candidate ''p5'' 2]"
proof -
  let ?xs = "[candidate ''p1'' 1, candidate ''p2'' 1, candidate ''p3'' 1,
              candidate ''p4'' 8640000000000001, candidate ''p5'' 2, candidate ''p6'' 3,
              candidate ''p7'' 2]"
  have nc: "\<not> consistentComparator compareFn ?xs"
    by (rule not_consistentComparator
          [of "candidate ''p1'' 1" _ "candidate ''p4'' 8640000000000001" "candidate ''p5'' 2"])
       (simp_all add: compareFn_def new_Date_def Date_gt_def Date_lt_def candidate_def)
  have v8: "V8_sort compareFn ?xs
      = [candidate ''p6'' 3, candidate ''p7'' 2, candidate ''p1'' 1, candidate ''p2'' 1,
         candidate ''p3'' 1, candidate ''p4'' 8640000000000001, candidate ''p5'' 2]"
    by code_simp
  have res: "fst (sortFindDDOResults V8_sort (\<lambda>a. ?xs) 0) 0 = V8_sort compareFn ?xs"
    using nc by (simp add: sortFindDDOResults_def Array_sort_def)
  show ?thesis
    unfolding res v8 by (simp add: candidate_def)
qed

text \<open>
  Claim C3, amended. On a list whose time stamps are all valid dates the sort is
  stable, whatever the engine: for every time stamp, the records carrying it stand in
  the returned list in the order they had in the input. When the input is the local
  record followed by a remote record with the same \<open>lastUpdateTime\<close>, valid or not,
  the returned list is unchanged and the local record is at index 0.
\<close>

theorem sortFindDDOResults_stable:
  "case sortFindDDOResults engine h resultList of
     (h', result) \<Rightarrow>
        ((\<forall>r\<in>set (h resultList). validDate (lastUpdateTime r)) \<longrightarrow>
           (\<forall>t. filter (\<lambda>r. lastUpdateTime r = t) (h' result)
                 = filter (\<lambda>r. lastUpdateTime r = t) (h resultList)))
      \<and> (\<forall>local remote.
            h resultList = [local, remote] \<and> lastUpdateTime local = lastUpdateTime remote
            \<longrightarrow> h' result = [local, remote] \<and> h' result ! 0 = local)"
  by (auto simp: sortFindDDOResults_def Array_sort_stable Array_sort_tie)

text \<open>
  The local record and a peer's record, both stamped 4, keep their order in front of
  and without a third record; the local one stays first.
\<close>

theorem sortFindDDOResults_stable_witness:
  "validDate (lastUpdateTime (candidate ''local'' 4))
   \<and> validDate (lastUpdateTime (candidate ''peer'' 4))
   \<and> validDate (lastUpdateTime (candidate ''other'' 6))
   \<and> filter (\<lambda>r. lastUpdateTime r = 4)
        (fst (sortFindDDOResults V8_sort
           (\<lambda>a. [candidate ''local'' 4, candidate ''peer'' 4, candidate ''other'' 6]) 0) 0)
       = [candidate ''local'' 4, candidate ''peer'' 4]
   \<and> (\<lambda>a. [candidate ''local'' 4, candidate ''peer'' 4]) (0::nat)
       = [candidate ''local'' 4, candidate ''peer'' 4]
   \<and> lastUpdateTime (candidate ''local'' 4) = lastUpdateTime (candidate ''peer'' 4)
   \<and> fst (sortFindDDOResults V8_sort (\<lambda>a. [candidate ''local'' 4, candidate ''peer'' 4]) 0) 0 ! 0
       = candidate ''local'' 4"
proof -
  have v: "\<forall>r\<in>set [candidate ''local'' 4, candidate ''peer'' 4, candidate ''other'' 6].
             validDate (lastUpdateTime r)"
    by (simp add: validDate_def new_Date_def candidate_def)
  show ?thesis
    using v
      sortFindDDOResults_stable
        [where engine = V8_sort
           and h = "\<lambda>a. [candidate ''local'' 4, candidate ''peer'' 4, candidate ''other'' 6]"
           and resultList = 0]
      sortFindDDOResults_stable
        [where engine = V8_sort and h = "\<lambda>a. [candidate ''local'' 4, candidate ''peer'' 4]"
           and resultList = 0]
    by (simp add: sortFindDDOResults_def candidate_def split: prod.splits)
qed


section \<open>Properties of the cache check and the local lookup\<close>

text \<open>
  Claim C4, as stated, fails: the age that \<open>hasCachedDDO\<close> compares with the TTL is
  not the entry's. On a cache stamped at time 0, \<open>findDDOLocally\<close> inserts the entry for
  \<^verbatim>\<open>ddo-1\<close> at time 5000. With a TTL of 1000 the entry, put in at that moment, is fresh
  in the spec's words (its age is 0), and \<open>hasCachedDDO\<close> at time 5000 answers false.
\<close>

theorem hasCachedDDO_entry_age_counterexample:
  "dht (getDDOCache (exampleNode Map.empty)) ''ddo-1'' = None
   \<and> fst (findDDOLocally (exampleNode Map.empty) ''ddo-1'') = Some (candidate ''self'' 100)
   \<and> dht (getDDOCache (snd (findDDOLocally (exampleNode Map.empty) ''ddo-1''))) ''ddo-1''
        = Some (candidate ''self'' 100)
   \<and> isCachedAndFresh 1000 5000
        (FreshnessCache_put 5000 ''ddo-1'' (candidate ''self'' 100) Map.empty) ''ddo-1''
   \<and> \<not> fst (hasCachedDDO 1000 5000 \<lparr>task_id = ''ddo-1''\<rparr>
              (snd (findDDOLocally (exampleNode Map.empty) ''ddo-1'')))"
  by (simp add: exampleNode_def findDDOLocally_def dht_set_def candidate_def
      isCachedAndFresh_def FreshnessCache_put_def hasCachedDDO_def Let_def)

text \<open>
  Claim C4, amended. \<open>hasCachedDDO\<close> returns true if and only if the cache contains the
  requested identifier and the age of the cache, the current time minus the cache-wide
  \<open>updated\<close> stamp, is at most the TTL; that stamp is shared by all entries and an
  insertion by \<open>findDDOLocally\<close> does not refresh it. For a stale but present entry it
  returns false and the cache, the store and the peer id are as before: the entry is
  not removed.
\<close>

theorem hasCachedDDO_cache_age:
  "fst (hasCachedDDO CACHE_TTL now task node)
     = (dht (getDDOCache node) (task_id task) \<noteq> None
        \<and> now - updated (getDDOCache node) \<le> CACHE_TTL)
   \<and> getDDOCache (snd (hasCachedDDO CACHE_TTL now task node)) = getDDOCache node
   \<and> getDatabase (snd (hasCachedDDO CACHE_TTL now task node)) = getDatabase node
   \<and> getPeerId (snd (hasCachedDDO CACHE_TTL now task node)) = getPeerId node
   \<and> updated (getDDOCache (snd (findDDOLocally node i))) = updated (getDDOCache node)"
  by (auto simp: hasCachedDDO_def findDDOLocally_def dht_set_def Let_def split: option.splits)

text \<open>The comparison of two \<^verbatim>\<open>Date\<close> objects, by the validity of the time stamps.\<close>

lemma Date_gt_valid:
  "validDate a \<Longrightarrow> validDate b \<Longrightarrow> Date_gt (new_Date a) (new_Date b) = (a > b)"
  by (auto simp: validDate_def new_Date_def Date_gt_def split: if_splits)

lemma Date_gt_iff:
  "Date_gt (new_Date a) (new_Date b) = (validDate a \<and> validDate b \<and> a > b)"
  by (auto simp: validDate_def new_Date_def Date_gt_def split: if_splits)

text \<open>
  Claim C5, as stated, fails: the store holds \<^verbatim>\<open>ddo-1\<close> with the time stamp
  8640000000000001, beyond the range of \<^verbatim>\<open>Date\<close>, and the cache holds a peer's
  record stamped 99. The comparison with an Invalid Date is false, so the cache keeps
  the peer's record, which has the smaller \<open>lastUpdateTime\<close>.
\<close>

theorem findDDOLocally_out_of_range_counterexample:
  "fst (findDDOLocally
         ((exampleNode [''ddo-1'' \<mapsto> candidate ''peer'' 99])
            \<lparr>getDatabase := [''ddo-1'' \<mapsto> \<lparr>ddo_id = ''ddo-1'', event_tx = ''0xabc'',
                                           metadata_updated = 8640000000000001\<rparr>]\<rparr>)
         ''ddo-1'')
     = Some (candidate ''self'' 8640000000000001)
   \<and> dht (getDDOCache (snd (findDDOLocally
         ((exampleNode [''ddo-1'' \<mapsto> candidate ''peer'' 99])
            \<lparr>getDatabase := [''ddo-1'' \<mapsto> \<lparr>ddo_id = ''ddo-1'', event_tx = ''0xabc'',
                                           metadata_updated = 8640000000000001\<rparr>]\<rparr>)
         ''ddo-1''))) ''ddo-1''
     = Some (candidate ''peer'' 99)
   \<and> lastUpdateTime (candidate ''peer'' 99) < lastUpdateTime (candidate ''self'' 8640000000000001)"
  by (simp add: exampleNode_def findDDOLocally_def dht_set_def candidate_def Let_def
      new_Date_def Date_gt_def)

text \<open>
  Claim C5, amended. When the store does not hold the identifier, \<open>findDDOLocally\<close>
  returns nothing and leaves the node, and so the cache, unchanged. When it holds a
  document, the returned record is built from the document and carries the node's own
  peer id as provider; the cache entry under the document's identifier is the fresh
  record when there was none, or when both time stamps are valid dates and the fresh
  one is strictly later, and the previously cached record otherwise (a tie keeps it,
  and so does a time stamp that is not a valid date). When both are valid dates the
  \<open>lastUpdateTime\<close> of the entry is the maximum of the two. Every other entry, the
  cache's stamp, the store and the peer id are as before. The cache is a map, so it
  holds at most one record for an identifier.
\<close>

theorem findDDOLocally_keeps_latest:
  "case getDatabase node i of
     None \<Rightarrow> findDDOLocally node i = (None, node)
   | Some ddo \<Rightarrow>
       (case findDDOLocally node i of
          (found, node') \<Rightarrow>
            (let ddoInfo = \<lparr>id' = ddo_id ddo, lastUpdateTx = event_tx ddo,
                            lastUpdateTime = metadata_updated ddo, provider = getPeerId node\<rparr>;
                 before = dht (getDDOCache node) (ddo_id ddo)
             in found = Some ddoInfo
              \<and> provider ddoInfo = getPeerId node
              \<and> dht (getDDOCache node') (ddo_id ddo)
                  = Some (case before of
                            None \<Rightarrow> ddoInfo
                          | Some c \<Rightarrow>
                              if validDate (lastUpdateTime c)
                                 \<and> validDate (lastUpdateTime ddoInfo)
                                 \<and> lastUpdateTime c < lastUpdateTime ddoInfo
                              then ddoInfo else c)
              \<and> (\<forall>c. before = Some c \<and> validDate (lastUpdateTime c)
                       \<and> validDate (lastUpdateTime ddoInfo) \<longrightarrow>
                     map_option lastUpdateTime (dht (getDDOCache node') (ddo_id ddo))
                       = Some (max (lastUpdateTime c) (lastUpdateTime ddoInfo)))
              \<and> (\<forall>k. k \<noteq> ddo_id ddo \<longrightarrow> dht (getDDOCache node') k = dht (getDDOCache node) k)
              \<and> updated (getDDOCache node') = updated (getDDOCache node)
              \<and> getDatabase node' = getDatabase node
              \<and> getPeerId node' = getPeerId node
              \<and> logger node' = logger node))"
  by (auto simp: findDDOLocally_def dht_set_def Let_def Date_gt_iff split: option.splits)

text \<open>
  On the example node: an empty cache takes the record; a cached record of the same
  time stays; an older one is replaced; another identifier's entry is untouched; an
  identifier the store does not hold changes nothing.
\<close>

theorem findDDOLocally_keeps_latest_witness:
  "getDatabase (exampleNode Map.empty) ''ddo-1''
     = Some \<lparr>ddo_id = ''ddo-1'', event_tx = ''0xabc'', metadata_updated = 100\<rparr>
   \<and> fst (findDDOLocally (exampleNode Map.empty) ''ddo-1'') = Some (candidate ''self'' 100)
   \<and> dht (getDDOCache (snd (findDDOLocally (exampleNode Map.empty) ''ddo-1''))) ''ddo-1''
       = Some (candidate ''self'' 100)
   \<and> validDate (lastUpdateTime (candidate ''peer'' 100))
   \<and> validDate (lastUpdateTime (candidate ''self'' 100))
   \<and> dht (getDDOCache (snd (findDDOLocally
         (exampleNode [''ddo-1'' \<mapsto> candidate ''peer'' 100]) ''ddo-1''))) ''ddo-1''
       = Some (candidate ''peer'' 100)
   \<and> validDate (lastUpdateTime (candidate ''peer'' 99))
   \<and> dht (getDDOCache (snd (findDDOLocally
         (exampleNode [''ddo-1'' \<mapsto> candidate ''peer'' 99]) ''ddo-1''))) ''ddo-1''
       = Some (candidate ''self'' 100)
   \<and> ''other'' \<noteq> ''ddo-1''
   \<and> dht (getDDOCache (snd (findDDOLocally
         (exampleNode [''other'' \<mapsto> candidate ''peer'' 7]) ''ddo-1''))) ''other''
       = Some (candidate ''peer'' 7)
   \<and> getDatabase (exampleNode Map.empty) ''ddo-2'' = None
   \<and> findDDOLocally (exampleNode Map.empty) ''ddo-2'' = (None, exampleNode Map.empty)"
  using findDDOLocally_keeps_latest [where node = "exampleNode Map.empty" and i = "''ddo-1''"]
    findDDOLocally_keeps_latest
      [where node = "exampleNode [''ddo-1'' \<mapsto> candidate ''peer'' 100]" and i = "''ddo-1''"]
    findDDOLocally_keeps_latest
      [where node = "exampleNode [''ddo-1'' \<mapsto> candidate ''peer'' 99]" and i = "''ddo-1''"]
    findDDOLocally_keeps_latest
      [where node = "exampleNode [''other'' \<mapsto> candidate ''peer'' 7]" and i = "''ddo-1''"]
    findDDOLocally_keeps_latest [where node = "exampleNode Map.empty" and i = "''ddo-2''"]
  by (simp add: exampleNode_def findDDOLocally_def dht_set_def candidate_def Let_def
      validDate_def new_Date_def Date_gt_def)


section \<open>Properties of the fallback walk\<close>

lemma tryRPC_result:
  "tryRPC world key this i = (ok, this', acts) \<Longrightarrow>
     acts = attemptActions (endpoint (provider' this)) (knownRPCs this ! nat i) ok
   \<and> knownRPCs this' = knownRPCs this
   \<and> endpoint (provider' this') = knownRPCs this ! nat i
   \<and> networkListener (provider' this')
   \<and> signer this' = \<lparr>privateKey = key, connectedTo = knownRPCs this ! nat i\<rparr>
   \<and> ok = isNetworkReady world this'"
proof -
  have fold_keep: "endpoint (foldl networkChanged p ns) = endpoint p
      \<and> networkListener (foldl networkChanged p ns) = networkListener p" for p ns
    by (induction ns arbitrary: p) (simp_all add: networkChanged_def)
  assume "tryRPC world key this i = (ok, this', acts)"
  then show ?thesis
    by (auto simp: tryRPC_def Let_def attemptActions_def sleep_def registerForNetworkEvents_def fold_keep)
qed

text \<open>An attempt never writes the flag that \<open>isNetworkReady\<close> reads.\<close>

lemma tryRPC_networkAvailable:
  "tryRPC world key this i = (ok, this', acts) \<Longrightarrow> networkAvailable this' = networkAvailable this"
  by (auto simp: tryRPC_def Let_def sleep_def registerForNetworkEvents_def)

lemma triedRPCs_append: "triedRPCs (xs @ ys) = triedRPCs xs @ triedRPCs ys"
  by (induction xs rule: triedRPCs.induct) simp_all

lemma readyAnswers_append: "readyAnswers (xs @ ys) = readyAnswers xs @ readyAnswers ys"
  by (induction xs rule: readyAnswers.induct) simp_all

lemma triedRPCs_attemptsTrace:
  "length oks = length rpcs \<Longrightarrow> triedRPCs (attemptsTrace old rpcs oks) = rpcs"
  by (induction old rpcs oks rule: attemptsTrace.induct)
     (simp_all add: triedRPCs_append attemptActions_def)

lemma readyAnswers_attemptsTrace:
  "length oks = length rpcs \<Longrightarrow> readyAnswers (attemptsTrace old rpcs oks) = oks"
  by (induction old rpcs oks rule: attemptsTrace.induct)
     (simp_all add: readyAnswers_append attemptActions_def)

lemma tryFallbackRPCs_from_trace:
  "m \<le> length (knownRPCs this) \<Longrightarrow>
   tryFallbackRPCs_from world key this (int m - 1) = (r, this', acts) \<Longrightarrow>
   \<exists>k\<le>m. acts = attemptsTrace (endpoint (provider' this))
                    (take k (rev (take m (knownRPCs this)))) (walkAnswers r k)
         \<and> (r \<longrightarrow> 0 < k \<and> endpoint (provider' this') = knownRPCs this ! (m - k)
                \<and> signer this' = \<lparr>privateKey = key, connectedTo = knownRPCs this ! (m - k)\<rparr>
                \<and> networkListener (provider' this') \<and> isNetworkReady world this')
         \<and> (\<not> r \<longrightarrow> k = m)
         \<and> knownRPCs this' = knownRPCs this"
proof (induction m arbitrary: this r this' acts)
  case 0
  then show ?case
    by (simp add: tryFallbackRPCs_from.simps [of _ _ _ "- 1"] walkAnswers_def)
next
  case (Suc m)
  let ?known = "knownRPCs this"
  obtain ok this1 acts1 where t: "tryRPC world key this (int m) = (ok, this1, acts1)"
    by (cases "tryRPC world key this (int m)") auto
  note tr = tryRPC_result [OF t]
  have lt: "m < length ?known" using Suc.prems(1) by simp
  have takeSuc: "rev (take (Suc m) ?known) = (?known ! m) # rev (take m ?known)"
    using lt by (simp add: take_Suc_conv_app_nth)
  show ?case
  proof (cases ok)
    case True
    with t Suc.prems(2) have res: "r" "this' = this1" "acts = acts1"
      by (simp_all add: tryFallbackRPCs_from.simps [of _ _ _ "int m"])
    have "acts = attemptsTrace (endpoint (provider' this))
                    (take 1 (rev (take (Suc m) ?known))) (walkAnswers r 1)"
      using tr res True by (simp add: takeSuc walkAnswers_def)
    then show ?thesis using tr res True
      by (intro exI [of _ 1]) simp
  next
    case False
    obtain r2 this2 acts2 where
      rec: "tryFallbackRPCs_from world key this1 (int m - 1) = (r2, this2, acts2)"
      by (cases "tryFallbackRPCs_from world key this1 (int m - 1)") auto
    with t False Suc.prems(2) have res: "r = r2" "this' = this2" "acts = acts1 @ acts2"
      by (simp_all add: tryFallbackRPCs_from.simps [of _ _ _ "int m"])
    have le: "m \<le> length (knownRPCs this1)" using lt tr by simp
    from Suc.IH [OF le rec] obtain k where k: "k \<le> m"
      "acts2 = attemptsTrace (endpoint (provider' this1))
                    (take k (rev (take m (knownRPCs this1)))) (walkAnswers r2 k)"
      "r2 \<longrightarrow> 0 < k \<and> endpoint (provider' this2) = knownRPCs this1 ! (m - k)
                \<and> signer this2 = \<lparr>privateKey = key, connectedTo = knownRPCs this1 ! (m - k)\<rparr>
                \<and> networkListener (provider' this2) \<and> isNetworkReady world this2"
      "\<not> r2 \<longrightarrow> k = m"
      "knownRPCs this2 = knownRPCs this1"
      by blast
    have ans: "walkAnswers r2 (Suc k) = False # walkAnswers r2 k"
      using k(3) by (cases k) (auto simp: walkAnswers_def)
    have "acts = attemptsTrace (endpoint (provider' this))
                    (take (Suc k) (rev (take (Suc m) ?known))) (walkAnswers r (Suc k))"
      using tr False k(2) res by (simp add: takeSuc ans)
    then show ?thesis using k tr res
      by (intro exI [of _ "Suc k"]) auto
  qed
qed


text \<open>
  Claim C6. The constructor makes the endpoint list the primary followed by the
  fallbacks in their order. \<open>tryFallbackRPCs\<close> makes some number \<open>k\<close> of attempts, on
  the first \<open>k\<close> endpoints of the reversed list: it starts at the last index and goes
  down, the primary coming last. Every attempt unsubscribes from the provider in place,
  builds the provider and the wallet for the candidate, subscribes to its events, sleeps
  2000 ms and then asks \<open>isNetworkReady\<close>. When the walk returns true, the last attempt
  is the only one that was answered true, the provider and the wallet in place are the
  ones of that candidate, and no endpoint of a lower index was tried; when it returns
  false, \<open>k\<close> is the length of the list.
\<close>

theorem tryFallbackRPCs_walks_from_last:
  assumes "tryFallbackRPCs world key this = (r, this', acts)"
  shows "knownRPCs (new_Blockchain key rpc chainName cid fallbackRPCs)
           = rpc # (case fallbackRPCs of None \<Rightarrow> [] | Some fallbacks \<Rightarrow> fallbacks)
       \<and> (\<exists>k\<le>length (knownRPCs this).
             acts = attemptsTrace (endpoint (provider' this))
                      (take k (rev (knownRPCs this))) (walkAnswers r k)
           \<and> triedRPCs acts = take k (rev (knownRPCs this))
           \<and> readyAnswers acts = walkAnswers r k
           \<and> (r \<longrightarrow> 0 < k
                  \<and> endpoint (provider' this') = rev (knownRPCs this) ! (k - 1)
                  \<and> signer this' = \<lparr>privateKey = key,
                                      connectedTo = rev (knownRPCs this) ! (k - 1)\<rparr>
                  \<and> networkListener (provider' this')
                  \<and> isNetworkReady world this')
           \<and> (\<not> r \<longrightarrow> k = length (knownRPCs this)))"
proof -
  have ctor: "knownRPCs (new_Blockchain key rpc chainName cid fallbackRPCs)
           = rpc # (case fallbackRPCs of None \<Rightarrow> [] | Some fallbacks \<Rightarrow> fallbacks)"
    by (simp add: new_Blockchain_def registerForNetworkEvents_def Let_def split: option.splits)
  let ?n = "length (knownRPCs this)"
  from assms have "tryFallbackRPCs_from world key this (int ?n - 1) = (r, this', acts)"
    by (simp add: tryFallbackRPCs_def)
  from tryFallbackRPCs_from_trace [OF le_refl this]
  obtain k where k: "k \<le> ?n"
    "acts = attemptsTrace (endpoint (provider' this))
                    (take k (rev (knownRPCs this))) (walkAnswers r k)"
    "r \<longrightarrow> 0 < k \<and> endpoint (provider' this') = knownRPCs this ! (?n - k)
                \<and> signer this' = \<lparr>privateKey = key, connectedTo = knownRPCs this ! (?n - k)\<rparr>
                \<and> networkListener (provider' this') \<and> isNetworkReady world this'"
    "\<not> r \<longrightarrow> k = ?n"
    by auto
  have len: "length (walkAnswers r k) = length (take k (rev (knownRPCs this)))"
    using k(1,3) by (auto simp: walkAnswers_def)
  have tried: "triedRPCs acts = take k (rev (knownRPCs this))"
    using k(2) len by (simp add: triedRPCs_attemptsTrace)
  have answers: "readyAnswers acts = walkAnswers r k"
    using k(2) len by (simp add: readyAnswers_attemptsTrace)
  have "r \<longrightarrow> rev (knownRPCs this) ! (k - 1) = knownRPCs this ! (?n - k)"
    using k(1,3) rev_nth [of "k - 1" "knownRPCs this"] by auto
  with k tried answers ctor show ?thesis by auto
qed

text \<open>
  With the pool (primary, f1, f2) and only f2 reachable, the walk makes one attempt,
  on f2, and returns true with f2 connected; with only f1 reachable it tries f2, then f1.
\<close>

theorem tryFallbackRPCs_walks_from_last_witness:
  "fst (tryFallbackRPCs (exampleWorld [''f2'']) ''key''
          (new_Blockchain ''key'' ''primary'' ''chain'' 1 (Some [''f1'', ''f2''])))
   \<and> snd (snd (tryFallbackRPCs (exampleWorld [''f2'']) ''key''
          (new_Blockchain ''key'' ''primary'' ''chain'' 1 (Some [''f1'', ''f2'']))))
       = [Off ''primary'', Warn ''f2'', NewProvider ''f2'', NewWallet ''f2'', On ''f2'',
          Sleep 2000, NetworkReady True]
   \<and> endpoint (provider' (fst (snd (tryFallbackRPCs (exampleWorld [''f2'']) ''key''
          (new_Blockchain ''key'' ''primary'' ''chain'' 1 (Some [''f1'', ''f2'']))))))
       = ''f2''
   \<and> triedRPCs (snd (snd (tryFallbackRPCs (exampleWorld [''f1'']) ''key''
          (new_Blockchain ''key'' ''primary'' ''chain'' 1 (Some [''f1'', ''f2''])))))
       = [''f2'', ''f1'']"
  using tryFallbackRPCs_walks_from_last
     [of "exampleWorld [''f2'']" "''key''"
         "new_Blockchain ''key'' ''primary'' ''chain'' 1 (Some [''f1'', ''f2''])"
         "fst (tryFallbackRPCs (exampleWorld [''f2'']) ''key''
            (new_Blockchain ''key'' ''primary'' ''chain'' 1 (Some [''f1'', ''f2''])))"
         "fst (snd (tryFallbackRPCs (exampleWorld [''f2'']) ''key''
            (new_Blockchain ''key'' ''primary'' ''chain'' 1 (Some [''f1'', ''f2'']))))"
         "snd (snd (tryFallbackRPCs (exampleWorld [''f2'']) ''key''
            (new_Blockchain ''key'' ''primary'' ''chain'' 1 (Some [''f1'', ''f2'']))))"
         "''primary''" "''chain''" 1 "Some [''f1'', ''f2'']"]
    tryFallbackRPCs_walks_from_last
     [of "exampleWorld [''f1'']" "''key''"
         "new_Blockchain ''key'' ''primary'' ''chain'' 1 (Some [''f1'', ''f2''])"
         "fst (tryFallbackRPCs (exampleWorld [''f1'']) ''key''
            (new_Blockchain ''key'' ''primary'' ''chain'' 1 (Some [''f1'', ''f2''])))"
         "fst (snd (tryFallbackRPCs (exampleWorld [''f1'']) ''key''
            (new_Blockchain ''key'' ''primary'' ''chain'' 1 (Some [''f1'', ''f2'']))))"
         "snd (snd (tryFallbackRPCs (exampleWorld [''f1'']) ''key''
            (new_Blockchain ''key'' ''primary'' ''chain'' 1 (Some [''f1'', ''f2'']))))"
         "''primary''" "''chain''" 1 "Some [''f1'', ''f2'']"]
  by (simp add: tryFallbackRPCs_def tryFallbackRPCs_from.simps tryRPC_def new_Blockchain_def
      registerForNetworkEvents_def sleep_def isNetworkReady_def detectNetwork_def
      exampleWorld_def Let_def)

text \<open>
  Claim C7. \<open>tryFallbackRPCs\<close> always returns a boolean. It returns false exactly
  when its attempts went through the whole list, from the last endpoint to the first,
  and no call of \<open>isNetworkReady\<close> answered true. It never makes more attempts than
  there are endpoints, one answer for each attempt, and it leaves the list as it was.
\<close>

theorem tryFallbackRPCs_false_iff_exhausted:
  "case tryFallbackRPCs world key this of
     (r, this', acts) \<Rightarrow>
        (\<not> r) = (triedRPCs acts = rev (knownRPCs this) \<and> True \<notin> set (readyAnswers acts))
      \<and> length (triedRPCs acts) \<le> length (knownRPCs this)
      \<and> length (readyAnswers acts) = length (triedRPCs acts)
      \<and> knownRPCs this' = knownRPCs this"
proof -
  obtain r this' acts where res: "tryFallbackRPCs world key this = (r, this', acts)"
    by (cases "tryFallbackRPCs world key this") auto
  let ?n = "length (knownRPCs this)"
  from res have "tryFallbackRPCs_from world key this (int ?n - 1) = (r, this', acts)"
    by (simp add: tryFallbackRPCs_def)
  from tryFallbackRPCs_from_trace [OF le_refl this]
  obtain k where k: "k \<le> ?n"
    "acts = attemptsTrace (endpoint (provider' this))
                    (take k (rev (knownRPCs this))) (walkAnswers r k)"
    "r \<longrightarrow> 0 < k" "\<not> r \<longrightarrow> k = ?n" "knownRPCs this' = knownRPCs this"
    by auto
  have len: "length (walkAnswers r k) = length (take k (rev (knownRPCs this)))"
    using k(1,3) by (auto simp: walkAnswers_def)
  have tried: "triedRPCs acts = take k (rev (knownRPCs this))"
    using k(2) len by (simp add: triedRPCs_attemptsTrace)
  have answers: "readyAnswers acts = walkAnswers r k"
    using k(2) len by (simp add: readyAnswers_attemptsTrace)
  have "(\<not> r) = (triedRPCs acts = rev (knownRPCs this) \<and> True \<notin> set (readyAnswers acts))"
    using k(1,3,4) by (cases r) (auto simp: tried answers walkAnswers_def)
  moreover have "length (triedRPCs acts) \<le> ?n" using k(1) tried by simp
  moreover have "length (readyAnswers acts) = length (triedRPCs acts)"
    using len tried answers by simp
  ultimately show ?thesis using res k(5) by simp
qed

text \<open>
  With the pool (primary, f1, f2) and no endpoint reachable, the walk tries f2, f1 and
  the primary, is answered false three times and returns false; with the primary
  reachable it returns true. Where every provider emits a \<^verbatim>\<open>network\<close> event with a
  genuine network and the probe fails, the event does not reach the flag of the
  \<^verbatim>\<open>Blockchain\<close> object: the walk tries all three endpoints and returns false.
\<close>

theorem tryFallbackRPCs_false_iff_exhausted_witness:
  "\<not> fst (tryFallbackRPCs (exampleWorld []) ''key''
          (new_Blockchain ''key'' ''primary'' ''chain'' 1 (Some [''f1'', ''f2''])))
   \<and> triedRPCs (snd (snd (tryFallbackRPCs (exampleWorld []) ''key''
          (new_Blockchain ''key'' ''primary'' ''chain'' 1 (Some [''f1'', ''f2''])))))
       = [''f2'', ''f1'', ''primary'']
   \<and> readyAnswers (snd (snd (tryFallbackRPCs (exampleWorld []) ''key''
          (new_Blockchain ''key'' ''primary'' ''chain'' 1 (Some [''f1'', ''f2''])))))
       = [False, False, False]
   \<and> fst (tryFallbackRPCs (exampleWorld [''primary'']) ''key''
          (new_Blockchain ''key'' ''primary'' ''chain'' 1 (Some [''f1'', ''f2''])))
   \<and> \<not> fst (tryFallbackRPCs
          (\<lambda>rpc. \<lparr>notifications = [True], ready = False, detect = DetectFailed\<rparr>) ''key''
          (new_Blockchain ''key'' ''primary'' ''chain'' 1 (Some [''f1'', ''f2''])))
   \<and> triedRPCs (snd (snd (tryFallbackRPCs
          (\<lambda>rpc. \<lparr>notifications = [True], ready = False, detect = DetectFailed\<rparr>) ''key''
          (new_Blockchain ''key'' ''primary'' ''chain'' 1 (Some [''f1'', ''f2''])))))
       = [''f2'', ''f1'', ''primary'']"
  using tryFallbackRPCs_false_iff_exhausted
     [where world = "exampleWorld []" and key = "''key''"
        and this = "new_Blockchain ''key'' ''primary'' ''chain'' 1 (Some [''f1'', ''f2''])"]
    tryFallbackRPCs_false_iff_exhausted
     [where world = "\<lambda>rpc. \<lparr>notifications = [True], ready = False, detect = DetectFailed\<rparr>"
        and key = "''key''"
        and this = "new_Blockchain ''key'' ''primary'' ''chain'' 1 (Some [''f1'', ''f2''])"]
  by (simp add: tryFallbackRPCs_def tryFallbackRPCs_from.simps tryRPC_def new_Blockchain_def
      registerForNetworkEvents_def sleep_def networkChanged_def isNetworkReady_def
      detectNetwork_def exampleWorld_def Let_def)


section \<open>Properties of message verification\<close>

text \<open>
  Claim C8. For every message, address and signature, and whatever the two library
  functions do, \<open>verifyMessage\<close> returns a boolean and never throws. The boolean is
  true exactly when the address is a valid address, the recovery of the signer succeeds
  and the recovered address equals the given one after lower-casing both; it is false
  when the address is not valid, when the recovery throws, and when the lower-cased
  addresses differ.
\<close>

theorem verifyMessage_total:
  "verifyMessage isAddress recover message address signature
     = Inr (isAddress address
            \<and> (\<exists>signerAddr. recover message signature = Inr signerAddr
                  \<and> toLowerCase signerAddr = toLowerCase address))
   \<and> (\<not> isAddress address \<longrightarrow>
        verifyMessage isAddress recover message address signature = Inr False)
   \<and> (\<forall>err. recover message signature = Inl err \<longrightarrow>
        verifyMessage isAddress recover message address signature = Inr False)
   \<and> (\<forall>signerAddr. recover message signature = Inr signerAddr
          \<and> toLowerCase signerAddr \<noteq> toLowerCase address \<longrightarrow>
        verifyMessage isAddress recover message address signature = Inr False)
   \<and> (\<forall>signerAddr. isAddress address \<and> recover message signature = Inr signerAddr
          \<and> toLowerCase signerAddr = toLowerCase address \<longrightarrow>
        verifyMessage isAddress recover message address signature = Inr True)"
  by (auto simp: verifyMessage_def verifyMessage_try_def split: sum.splits)

text \<open>
  A matching signer in another letter case, a differing address, a signature whose
  recovery throws, and a text that is not an address.
\<close>

theorem verifyMessage_total_witness:
  "verifyMessage (\<lambda>a. take 2 a = ''0x'') exampleRecover (Text ''hello'') ''0xaBcDeF'' ''0xsig''
     = Inr True
   \<and> verifyMessage (\<lambda>a. take 2 a = ''0x'') exampleRecover (Text ''hello'') ''0xaBcDe0'' ''0xsig''
     = Inr False
   \<and> verifyMessage (\<lambda>a. take 2 a = ''0x'') exampleRecover (Text ''hello'') ''0xaBcDeF'' ''0xbad''
     = Inr False
   \<and> verifyMessage (\<lambda>a. take 2 a = ''0x'') exampleRecover (Text ''hello'') ''aBcDeF'' ''0xsig''
     = Inr False"
proof -
  have l1: "toLowerCase ''0xAbCdEf'' = toLowerCase ''0xaBcDeF''" by code_simp
  have l2: "toLowerCase ''0xAbCdEf'' \<noteq> toLowerCase ''0xaBcDe0''" by code_simp
  show ?thesis
    using l1 l2
      verifyMessage_total [of "\<lambda>a. take 2 a = ''0x''" exampleRecover "Text ''hello''" "''0xaBcDeF''" "''0xsig''"]
      verifyMessage_total [of "\<lambda>a. take 2 a = ''0x''" exampleRecover "Text ''hello''" "''0xaBcDe0''" "''0xsig''"]
      verifyMessage_total [of "\<lambda>a. take 2 a = ''0x''" exampleRecover "Text ''hello''" "''0xaBcDeF''" "''0xbad''"]
      verifyMessage_total [of "\<lambda>a. take 2 a = ''0x''" exampleRecover "Text ''hello''" "''aBcDeF''" "''0xsig''"]
    by (simp add: exampleRecover_def)
qed


section \<open>Properties of the storage back ends\<close>

text \<open>
  The test of the path pattern, computed from the last slash, is the match of the
  regular expression: a split of the text at a slash into a non-empty part without line
  terminators and a non-empty part without slashes.
\<close>

lemma pathRegex_test_iff:
  "pathRegex_test s \<longleftrightarrow>
     (\<exists>a b. s = a @ CHR ''/'' # b \<and> a \<noteq> [] \<and> \<not> list_ex lineTerminator a
            \<and> b \<noteq> [] \<and> CHR ''/'' \<notin> set b)"
proof
  assume "pathRegex_test s"
  let ?P = "\<lambda>c. c \<noteq> CHR ''/''"
  from \<open>pathRegex_test s\<close> obtain sl fp where
    d: "dropWhile ?P (rev s) = sl # fp" and fp: "fp \<noteq> []" "\<not> list_ex lineTerminator fp"
    and lp: "takeWhile ?P (rev s) \<noteq> []"
    by (auto simp: pathRegex_test_def Let_def split: list.splits)
  have "\<not> ?P (hd (dropWhile ?P (rev s)))" using d hd_dropWhile [of ?P "rev s"] by simp
  then have sl: "sl = CHR ''/''" using d by simp
  have "rev s = takeWhile ?P (rev s) @ sl # fp" using d takeWhile_dropWhile_id [of ?P "rev s"] by simp
  then have "s = rev fp @ CHR ''/'' # rev (takeWhile ?P (rev s))"
    using sl by (metis rev_append rev.simps(2) rev_rev_ident append.assoc append_Cons append_Nil)
  moreover have "CHR ''/'' \<notin> set (rev (takeWhile ?P (rev s)))"
    using set_takeWhileD by fastforce
  ultimately show "\<exists>a b. s = a @ CHR ''/'' # b \<and> a \<noteq> [] \<and> \<not> list_ex lineTerminator a
            \<and> b \<noteq> [] \<and> CHR ''/'' \<notin> set b"
    using fp lp by (intro exI [of _ "rev fp"] exI [of _ "rev (takeWhile ?P (rev s))"]) (simp add: list_ex_iff)
next
  assume "\<exists>a b. s = a @ CHR ''/'' # b \<and> a \<noteq> [] \<and> \<not> list_ex lineTerminator a
            \<and> b \<noteq> [] \<and> CHR ''/'' \<notin> set b"
  then obtain a b where s: "s = a @ CHR ''/'' # b" and a: "a \<noteq> []" "\<not> list_ex lineTerminator a"
    and b: "b \<noteq> []" "CHR ''/'' \<notin> set b" by blast
  have r: "rev s = rev b @ CHR ''/'' # rev a" using s by simp
  have t: "takeWhile (\<lambda>c. c \<noteq> CHR ''/'') (rev s) = rev b"
    unfolding r using b(2) by (subst takeWhile_append2) auto
  have d: "dropWhile (\<lambda>c. c \<noteq> CHR ''/'') (rev s) = CHR ''/'' # rev a"
    unfolding r using b(2) by (subst dropWhile_append2) auto
  show "pathRegex_test s"
    using a b by (simp add: pathRegex_test_def t d list_ex_iff)
qed


text \<open>
  Claim C9, as stated, fails: a file of type \<^verbatim>\<open>url\<close> without a url is not answered
  with a \<^verbatim>\<open>UrlStorage\<close>; the constructor's validation throws.
\<close>

theorem getStorageClass_url_counterexample:
  "type' (exampleFile ''url'' None (Some ''get'')) = Some ''url''
   \<and> getStorageClass \<lparr>ARWEAVE_GATEWAY = None, IPFS_GATEWAY = None\<rparr>
        (\<lambda>r. exampleFile ''url'' None (Some ''get'')) 0
       = Inl (Error ''Error validationg the URL file: URL or method are missing'')"
  by (simp add: exampleFile_def getStorageClass_def new_UrlStorage_def UrlStorage_validate_def
      falsy_def)

text \<open>The constructors, by the outcome of the validation.\<close>

lemma new_UrlStorage_eq:
  "new_UrlStorage env objects file =
     (if fst (UrlStorage_validate (objects file)) then Inr (UrlStorage file)
      else Inl (Error (''Error validationg the URL file: ''
                       @ snd (UrlStorage_validate (objects file)))))"
  by (simp add: new_UrlStorage_def split: prod.splits)

lemma new_IpfsStorage_eq:
  "new_IpfsStorage env objects file =
     (if fst (IpfsStorage_validate env (objects file)) then Inr (IpfsStorage file)
      else Inl (Error (''Error validationg the IPFS file: ''
                       @ snd (IpfsStorage_validate env (objects file)))))"
  by (simp add: new_IpfsStorage_def split: prod.splits)

lemma new_ArweaveStorage_eq:
  "new_ArweaveStorage env objects file =
     (if fst (ArweaveStorage_validate env (objects file)) then Inr (ArweaveStorage file)
      else Inl (Error (''Error validationg the Arweave file: ''
                       @ snd (ArweaveStorage_validate env (objects file)))))"
  by (simp add: new_ArweaveStorage_def split: prod.splits)

text \<open>
  Claim C9, amended. \<open>getStorageClass\<close> constructs a \<^verbatim>\<open>UrlStorage\<close> when the type
  is \<^verbatim>\<open>url\<close>, an \<^verbatim>\<open>IpfsStorage\<close> when it is \<^verbatim>\<open>ipfs\<close> and an \<^verbatim>\<open>ArweaveStorage\<close>
  when it is \<^verbatim>\<open>arweave\<close>: it returns the object when the file passes the validation of
  that class and throws the constructor's error otherwise. For every other type, a
  missing one included, it throws the error "Invalid storage type". So a storage object
  it returns matches the type tag, holds the file, and is valid.
\<close>

theorem getStorageClass_dispatch:
  "(type' (objects file) = Some ''url'' \<longrightarrow>
      getStorageClass env objects file =
        (if fst (UrlStorage_validate (objects file)) then Inr (UrlStorage file)
         else Inl (Error (''Error validationg the URL file: ''
                          @ snd (UrlStorage_validate (objects file))))))
   \<and> (type' (objects file) = Some ''ipfs'' \<longrightarrow>
      getStorageClass env objects file =
        (if fst (IpfsStorage_validate env (objects file)) then Inr (IpfsStorage file)
         else Inl (Error (''Error validationg the IPFS file: ''
                          @ snd (IpfsStorage_validate env (objects file))))))
   \<and> (type' (objects file) = Some ''arweave'' \<longrightarrow>
      getStorageClass env objects file =
        (if fst (ArweaveStorage_validate env (objects file)) then Inr (ArweaveStorage file)
         else Inl (Error (''Error validationg the Arweave file: ''
                          @ snd (ArweaveStorage_validate env (objects file))))))
   \<and> (type' (objects file) \<noteq> Some ''url'' \<and> type' (objects file) \<noteq> Some ''ipfs''
        \<and> type' (objects file) \<noteq> Some ''arweave'' \<longrightarrow>
      getStorageClass env objects file =
        Inl (Error (''Invalid storage type: ''
                    @ (case type' (objects file) of None \<Rightarrow> ''undefined'' | Some t \<Rightarrow> t))))
   \<and> (\<forall>storage. getStorageClass env objects file = Inr storage \<longrightarrow>
        type' (objects file) = Some (className storage) \<and> getFile storage = file
        \<and> fst (validate env objects storage))"
  by (auto simp: getStorageClass_def new_UrlStorage_eq new_IpfsStorage_eq new_ArweaveStorage_eq
      Let_def split: if_splits)

text \<open>
  A valid url file gives a \<^verbatim>\<open>UrlStorage\<close>; an ipfs file without a gateway and an
  arweave file without a transaction id are refused by their constructors; the type
  \<^verbatim>\<open>ftp\<close> is refused as invalid.
\<close>

theorem getStorageClass_dispatch_witness:
  "type' (exampleFile ''url'' (Some ''http://a/b'') (Some ''GET'')) = Some ''url''
   \<and> getStorageClass \<lparr>ARWEAVE_GATEWAY = None, IPFS_GATEWAY = None\<rparr>
        (\<lambda>r. exampleFile ''url'' (Some ''http://a/b'') (Some ''GET'')) 0
       = Inr (UrlStorage 0)
   \<and> type' (exampleFile ''ipfs'' None None) = Some ''ipfs''
   \<and> getStorageClass \<lparr>ARWEAVE_GATEWAY = None, IPFS_GATEWAY = None\<rparr>
        (\<lambda>r. exampleFile ''ipfs'' None None) 0
       = Inl (Error ''Error validationg the IPFS file: IPFS gateway is not provided!'')
   \<and> type' (exampleFile ''arweave'' None None) = Some ''arweave''
   \<and> getStorageClass \<lparr>ARWEAVE_GATEWAY = Some ''https://arweave.net'', IPFS_GATEWAY = None\<rparr>
        (\<lambda>r. exampleFile ''arweave'' None None) 0
       = Inl (Error ''Error validationg the Arweave file: Missing transaction ID'')
   \<and> getStorageClass \<lparr>ARWEAVE_GATEWAY = None, IPFS_GATEWAY = None\<rparr>
        (\<lambda>r. exampleFile ''ftp'' None None) 0
       = Inl (Error ''Invalid storage type: ftp'')"
proof -
  have m: "toLowerCase ''GET'' = ''get''" by code_simp
  show ?thesis
    using getStorageClass_dispatch
        [of "\<lambda>r. exampleFile ''url'' (Some ''http://a/b'') (Some ''GET'')" 0
            "\<lparr>ARWEAVE_GATEWAY = None, IPFS_GATEWAY = None\<rparr>"]
      getStorageClass_dispatch
        [of "\<lambda>r. exampleFile ''ipfs'' None None" 0
            "\<lparr>ARWEAVE_GATEWAY = None, IPFS_GATEWAY = None\<rparr>"]
      getStorageClass_dispatch
        [of "\<lambda>r. exampleFile ''arweave'' None None" 0
            "\<lparr>ARWEAVE_GATEWAY = Some ''https://arweave.net'', IPFS_GATEWAY = None\<rparr>"]
      getStorageClass_dispatch
        [of "\<lambda>r. exampleFile ''ftp'' None None" 0
            "\<lparr>ARWEAVE_GATEWAY = None, IPFS_GATEWAY = None\<rparr>"]
    by (simp add: exampleFile_def UrlStorage_validate_def IpfsStorage_validate_def
        ArweaveStorage_validate_def falsy_def isFilePath_def startsWith_def m)
qed

text \<open>
  Claim C10, as stated, fails: the object keeps the caller's file object by reference
  and reads it again on every call. A \<^verbatim>\<open>UrlStorage\<close> is built on a valid file; its
  holder then writes \<^verbatim>\<open>file.method = 'delete'\<close>; \<open>getDownloadUrl\<close> on the constructed
  object now takes the second branch and returns \<^verbatim>\<open>null\<close>.
\<close>

theorem UrlStorage_later_write_counterexample:
  "new_UrlStorage \<lparr>ARWEAVE_GATEWAY = None, IPFS_GATEWAY = None\<rparr>
       (\<lambda>r. exampleFile ''url'' (Some ''https://example.com/data.csv'') (Some ''get'')) 0
     = Inr (UrlStorage 0)
   \<and> validate \<lparr>ARWEAVE_GATEWAY = None, IPFS_GATEWAY = None\<rparr>
       ((\<lambda>r. exampleFile ''url'' (Some ''https://example.com/data.csv'') (Some ''get''))
          (0 := (exampleFile ''url'' (Some ''https://example.com/data.csv'') (Some ''get''))
                  \<lparr>method' := Some ''delete''\<rparr>))
       (UrlStorage 0)
     = (False, ''Invalid method for URL'')
   \<and> UrlStorage_getDownloadUrl \<lparr>ARWEAVE_GATEWAY = None, IPFS_GATEWAY = None\<rparr>
       ((\<lambda>r. exampleFile ''url'' (Some ''https://example.com/data.csv'') (Some ''get''))
          (0 := (exampleFile ''url'' (Some ''https://example.com/data.csv'') (Some ''get''))
                  \<lparr>method' := Some ''delete''\<rparr>))
       (UrlStorage 0)
     = None"
proof -
  have m: "toLowerCase ''get'' = ''get''" "toLowerCase ''delete'' = ''delete''" by code_simp+
  show ?thesis
    by (simp add: exampleFile_def new_UrlStorage_eq UrlStorage_validate_def falsy_def
        isFilePath_def startsWith_def m UrlStorage_getDownloadUrl_def)
qed

text \<open>
  Claim C10, amended. A \<^verbatim>\<open>UrlStorage\<close> that the constructor returns validates to
  \<^verbatim>\<open>[true, '']\<close> at that moment: its file has a non-empty url and a method that
  lower-cases to \<^verbatim>\<open>get\<close> or \<^verbatim>\<open>post\<close>, and the url is not a file path; the
  constructor throws whenever the validation does not answer \<^verbatim>\<open>[true, '']\<close>. For as
  long as the file object has not been written to since, whatever else has changed,
  the object still validates and \<open>getDownloadUrl\<close> returns the file's url and not
  \<^verbatim>\<open>null\<close>.
\<close>

theorem UrlStorage_constructed_valid:
  "(\<forall>this. new_UrlStorage env objects file = Inr this \<longrightarrow>
        this = UrlStorage file
      \<and> validate env objects this = (True, [])
      \<and> (\<exists>u m. url (objects file) = Some u \<and> u \<noteq> [] \<and> method' (objects file) = Some m
              \<and> (toLowerCase m = ''get'' \<or> toLowerCase m = ''post'')
              \<and> \<not> isFilePath u
              \<and> UrlStorage_getDownloadUrl env objects this = Some u)
      \<and> (\<forall>env' objects'. objects' file = objects file \<longrightarrow>
              validate env' objects' this = (True, [])
            \<and> UrlStorage_getDownloadUrl env' objects' this = url (objects file)
            \<and> UrlStorage_getDownloadUrl env' objects' this \<noteq> None))
   \<and> (validate env objects (UrlStorage file) \<noteq> (True, []) \<longrightarrow>
        new_UrlStorage env objects file
          = Inl (Error (''Error validationg the URL file: ''
                        @ snd (validate env objects (UrlStorage file)))))"
  by (auto simp: new_UrlStorage_eq UrlStorage_validate_def UrlStorage_getDownloadUrl_def
      falsy_def split: if_splits option.splits)

text \<open>
  A url with a scheme and the method \<^verbatim>\<open>Post\<close> is accepted and downloaded from, also
  after another file object has been written to; the relative path \<^verbatim>\<open>dir/data.csv\<close>
  is refused.
\<close>

theorem UrlStorage_constructed_valid_witness:
  "new_UrlStorage \<lparr>ARWEAVE_GATEWAY = None, IPFS_GATEWAY = None\<rparr>
       (\<lambda>r. exampleFile ''url'' (Some ''https://example.com/data.csv'') (Some ''Post'')) 0
     = Inr (UrlStorage 0)
   \<and> UrlStorage_getDownloadUrl \<lparr>ARWEAVE_GATEWAY = None, IPFS_GATEWAY = None\<rparr>
       (\<lambda>r. exampleFile ''url'' (Some ''https://example.com/data.csv'') (Some ''Post''))
       (UrlStorage 0)
     = Some ''https://example.com/data.csv''
   \<and> ((\<lambda>r. exampleFile ''url'' (Some ''https://example.com/data.csv'') (Some ''Post''))
          (1 := exampleFile ''ftp'' None None)) (0::nat)
     = exampleFile ''url'' (Some ''https://example.com/data.csv'') (Some ''Post'')
   \<and> UrlStorage_getDownloadUrl \<lparr>ARWEAVE_GATEWAY = None, IPFS_GATEWAY = None\<rparr>
       ((\<lambda>r. exampleFile ''url'' (Some ''https://example.com/data.csv'') (Some ''Post''))
          (1 := exampleFile ''ftp'' None None))
       (UrlStorage 0)
     = Some ''https://example.com/data.csv''
   \<and> validate \<lparr>ARWEAVE_GATEWAY = None, IPFS_GATEWAY = None\<rparr>
       (\<lambda>r. exampleFile ''url'' (Some ''dir/data.csv'') (Some ''get'')) (UrlStorage 0)
     \<noteq> (True, [])
   \<and> new_UrlStorage \<lparr>ARWEAVE_GATEWAY = None, IPFS_GATEWAY = None\<rparr>
       (\<lambda>r. exampleFile ''url'' (Some ''dir/data.csv'') (Some ''get'')) 0
     = Inl (Error ''Error validationg the URL file: URL looks like a file path'')"
proof -
  have m: "toLowerCase ''Post'' = ''post''" "toLowerCase ''get'' = ''get''" by code_simp+
  have p: "pathRegex_test ''dir/data.csv''" by code_simp
  show ?thesis
    using UrlStorage_constructed_valid
        [of "\<lparr>ARWEAVE_GATEWAY = None, IPFS_GATEWAY = None\<rparr>"
            "\<lambda>r. exampleFile ''url'' (Some ''https://example.com/data.csv'') (Some ''Post'')" 0]
      UrlStorage_constructed_valid
        [of "\<lparr>ARWEAVE_GATEWAY = None, IPFS_GATEWAY = None\<rparr>"
            "\<lambda>r. exampleFile ''url'' (Some ''dir/data.csv'') (Some ''get'')" 0]
    by (simp add: exampleFile_def new_UrlStorage_eq UrlStorage_validate_def falsy_def
        isFilePath_def startsWith_def m p UrlStorage_getDownloadUrl_def)
qed

end
